theory Spec2Isabelle
  imports Complex_Main "HOL-Library.Sublist" "HOL-Library.Multiset" "HOL-Library.Product_Lexorder"
begin

section \<open>Strings and slices as Python has them\<close>

text \<open>
  Strings are character lists. \<open>lower\<close> is \<^verbatim>\<open>str.lower\<close> and \<open>strip\<close> is
  \<^verbatim>\<open>str.strip\<close>, both on the ASCII range (the recipe catalogue and the keyword tables
  of \<^verbatim>\<open>app.py\<close> are ASCII); \<open>str_in a b\<close> is the substring test \<^verbatim>\<open>a in b\<close>.
\<close>

definition upper_case :: string where
  "upper_case = ''ABCDEFGHIJKLMNOPQRSTUVWXYZ''"

definition lower_case :: string where
  "lower_case = ''abcdefghijklmnopqrstuvwxyz''"

definition lower_char :: "char \<Rightarrow> char" where
  "lower_char c = (case map_of (zip upper_case lower_case) c of None \<Rightarrow> c | Some d \<Rightarrow> d)"

definition lower :: "string \<Rightarrow> string" where
  "lower s = map lower_char s"

definition is_space :: "char \<Rightarrow> bool" where
  "is_space c =
     (let n = (of_char c :: nat) in (9 \<le> n \<and> n \<le> 13) \<or> (28 \<le> n \<and> n \<le> 32))"

definition strip :: "string \<Rightarrow> string" where
  "strip s = rev (dropWhile is_space (rev (dropWhile is_space s)))"

fun str_in :: "string \<Rightarrow> string \<Rightarrow> bool" where
  "str_in a [] = (a = [])"
| "str_in a (c # cs) = (prefix a (c # cs) \<or> str_in a cs)"

text \<open>\<^verbatim>\<open>xs[i:]\<close> and \<^verbatim>\<open>xs[:i]\<close>: a negative index counts from the end, and an index
  out of range is clipped.\<close>

definition slice_from :: "int \<Rightarrow> 'a list \<Rightarrow> 'a list" where
  "slice_from i xs =
     (if i < 0 then drop (nat (int (length xs) + i)) xs else drop (nat i) xs)"

definition slice_to :: "int \<Rightarrow> 'a list \<Rightarrow> 'a list" where
  "slice_to i xs =
     (if i < 0 then take (nat (int (length xs) + i)) xs else take (nat i) xs)"

section \<open>FamilyPreferencesManager\<close>

record recipe =
  title :: string
  main_ingredients :: "string list"
  all_ingredients :: "string list"
  time :: int
  calories :: int
  tags :: "string list"

record preferences =
  disliked_ingredients :: "string list"
  loved_ingredients :: "string list"
  neutral_ingredients :: "string list"
  never_suggest_again :: "string list"
  family_favorites :: "string list"
  dietary_restrictions :: "string list"
  spice_tolerance :: string
  texture_preferences :: "(string \<times> bool) list"

record meal =
  meal_recipe :: string
  meal_date :: string

record family_prefs =
  prefs_of :: preferences
  last_4_weeks :: "meal list"

text \<open>\<^verbatim>\<open>FamilyPreferencesManager.__init__\<close>. (The \<^verbatim>\<open>ingredient_frequency\<close> counter of
  the meal history is never read or written after construction and is left out.)\<close>

definition init_prefs :: family_prefs where
  "init_prefs =
     \<lparr>prefs_of =
        \<lparr>disliked_ingredients = [], loved_ingredients = [], neutral_ingredients = [],
         never_suggest_again = [], family_favorites = [], dietary_restrictions = [],
         spice_tolerance = ''medium'',
         texture_preferences =
           [(''creamy'', True), (''crunchy'', True), (''spicy'', True), (''sweet'', True)]\<rparr>,
      last_4_weeks = []\<rparr>"

text \<open>\<^verbatim>\<open>add_dislike\<close> and \<^verbatim>\<open>add_love\<close>; \<^verbatim>\<open>list.remove\<close> deletes the first occurrence,
  which is \<open>remove1\<close>.\<close>

definition add_dislike :: "string \<Rightarrow> family_prefs \<Rightarrow> family_prefs" where
  "add_dislike ingredient0 self =
     (let ingredient = strip (lower ingredient0);
          p = prefs_of self
      in if ingredient \<notin> set (disliked_ingredients p) then
           let p1 = p\<lparr>disliked_ingredients := disliked_ingredients p @ [ingredient]\<rparr>
           in if ingredient \<in> set (loved_ingredients p1) then
                self\<lparr>prefs_of := p1\<lparr>loved_ingredients := remove1 ingredient (loved_ingredients p1)\<rparr>\<rparr>
              else self\<lparr>prefs_of := p1\<rparr>
         else self)"

definition add_love :: "string \<Rightarrow> family_prefs \<Rightarrow> family_prefs" where
  "add_love ingredient0 self =
     (let ingredient = strip (lower ingredient0);
          p = prefs_of self
      in if ingredient \<notin> set (loved_ingredients p) then
           let p1 = p\<lparr>loved_ingredients := loved_ingredients p @ [ingredient]\<rparr>
           in if ingredient \<in> set (disliked_ingredients p1) then
                self\<lparr>prefs_of := p1\<lparr>disliked_ingredients := remove1 ingredient (disliked_ingredients p1)\<rparr>\<rparr>
              else self\<lparr>prefs_of := p1\<rparr>
         else self)"

definition ban_recipe :: "string \<Rightarrow> family_prefs \<Rightarrow> family_prefs" where
  "ban_recipe recipe_title self =
     (let p = prefs_of self
      in if recipe_title \<notin> set (never_suggest_again p) then
           self\<lparr>prefs_of := p\<lparr>never_suggest_again := never_suggest_again p @ [recipe_title]\<rparr>\<rparr>
         else self)"

definition add_favorite :: "string \<Rightarrow> family_prefs \<Rightarrow> family_prefs" where
  "add_favorite recipe_title self =
     (let p = prefs_of self
      in if recipe_title \<notin> set (family_favorites p) then
           self\<lparr>prefs_of := p\<lparr>family_favorites := family_favorites p @ [recipe_title]\<rparr>\<rparr>
         else self)"

text \<open>\<^verbatim>\<open>recipe_contains_dislikes\<close>: the two nested loops, returning at the first match.
  Only the recipe's ingredients are lower-cased; a disliked string is used as stored.\<close>

fun dislike_in_any :: "string \<Rightarrow> string list \<Rightarrow> bool" where
  "dislike_in_any disliked [] = False"
| "dislike_in_any disliked (recipe_ing # rest) =
     (if str_in disliked recipe_ing then True else dislike_in_any disliked rest)"

fun any_dislike :: "string list \<Rightarrow> string list \<Rightarrow> bool" where
  "any_dislike [] recipe_ingredients = False"
| "any_dislike (disliked # rest) recipe_ingredients =
     (if dislike_in_any disliked recipe_ingredients then True
      else any_dislike rest recipe_ingredients)"

definition recipe_contains_dislikes :: "family_prefs \<Rightarrow> recipe \<Rightarrow> bool" where
  "recipe_contains_dislikes self r =
     (let recipe_ingredients = map lower (all_ingredients r)
      in any_dislike (disliked_ingredients (prefs_of self)) recipe_ingredients)"

definition recipe_is_banned :: "family_prefs \<Rightarrow> recipe \<Rightarrow> bool" where
  "recipe_is_banned self r = (title r \<in> set (never_suggest_again (prefs_of self)))"

definition was_served_recently :: "family_prefs \<Rightarrow> recipe \<Rightarrow> int \<Rightarrow> bool" where
  "was_served_recently self r weeks_back =
     (let recent_meals = slice_from (- weeks_back * 7) (last_4_weeks self)
      in title r \<in> set (map meal_recipe recent_meals))"

definition log_meal :: "string \<Rightarrow> string \<Rightarrow> family_prefs \<Rightarrow> family_prefs" where
  "log_meal recipe_title date self =
     (let h = last_4_weeks self @ [\<lparr>meal_recipe = recipe_title, meal_date = date\<rparr>]
      in if length h > 28 then self\<lparr>last_4_weeks := slice_from (- 28) h\<rparr>
         else self\<lparr>last_4_weeks := h\<rparr>)"

text \<open>Sequences of calls on one manager, oldest call first.\<close>

datatype pref_call = AddDislike string | AddLove string

fun do_call :: "pref_call \<Rightarrow> family_prefs \<Rightarrow> family_prefs" where
  "do_call (AddDislike x) self = add_dislike x self"
| "do_call (AddLove x) self = add_love x self"

definition run_calls :: "pref_call list \<Rightarrow> family_prefs \<Rightarrow> family_prefs" where
  "run_calls cs self = foldl (\<lambda>s c. do_call c s) self cs"

definition log_meals :: "(string \<times> string) list \<Rightarrow> family_prefs \<Rightarrow> family_prefs" where
  "log_meals ms self = foldl (\<lambda>s (t, d). log_meal t d s) self ms"

definition meal_of :: "string \<times> string \<Rightarrow> meal" where
  "meal_of td = \<lparr>meal_recipe = fst td, meal_date = snd td\<rparr>"

text \<open>The invariant of the two ingredient lists: no duplicates, nothing in both.\<close>

definition exclusive :: "family_prefs \<Rightarrow> bool" where
  "exclusive self =
     (distinct (disliked_ingredients (prefs_of self))
      \<and> distinct (loved_ingredients (prefs_of self))
      \<and> set (disliked_ingredients (prefs_of self))
          \<inter> set (loved_ingredients (prefs_of self)) = {})"

text \<open>What the specification calls a case-insensitive substring match of an ingredient
  against a disliked string: both sides lower-cased.\<close>

definition contains_ignoring_case :: "string \<Rightarrow> string \<Rightarrow> bool" where
  "contains_ignoring_case ing disliked = str_in (lower disliked) (lower ing)"

text \<open>The disliked strings are stored lower-cased, as \<^verbatim>\<open>add_dislike\<close> stores them.\<close>

definition lower_cased :: "family_prefs \<Rightarrow> bool" where
  "lower_cased self = (\<forall>d \<in> set (disliked_ingredients (prefs_of self)). lower d = d)"

text \<open>A preference state holding a disliked string with a capital letter.\<close>

definition capital_prefs :: family_prefs where
  "capital_prefs =
     init_prefs\<lparr>prefs_of := (prefs_of init_prefs)\<lparr>disliked_ingredients := [''Chicken'']\<rparr>\<rparr>"

section \<open>SmartMealRotator\<close>

text \<open>The recipe catalogue of \<^verbatim>\<open>_create_recipe_database\<close>: a dictionary with five fixed
  keys, each read with a constant key, hence a record of five recipe lists.\<close>

definition weekday_breakfast_recipes :: "recipe list" where
  "weekday_breakfast_recipes =
     [
      \<lparr>title = ''Turkey Sausage and Egg Scramble'',
       main_ingredients = [''turkey sausage'', ''eggs'', ''spinach''],
       all_ingredients = [''turkey breakfast sausage'', ''eggs'', ''fresh spinach'', ''bell pepper'', ''onion'', ''olive oil''],
       time = 8, calories = 280, tags = [''high-protein'', ''healthy'']\<rparr>,
      \<lparr>title = ''Greek Yogurt Parfait with Granola'',
       main_ingredients = [''greek yogurt'', ''granola'', ''berries''],
       all_ingredients = [''greek yogurt'', ''granola'', ''mixed berries'', ''honey'', ''nuts''],
       time = 5, calories = 320, tags = [''quick'', ''healthy'', ''protein'']\<rparr>,
      \<lparr>title = ''Avocado Toast with Turkey Bacon'',
       main_ingredients = [''whole grain bread'', ''avocado'', ''turkey bacon''],
       all_ingredients = [''whole grain bread'', ''avocado'', ''turkey bacon'', ''tomato'', ''lime''],
       time = 8, calories = 350, tags = [''healthy-fats'', ''satisfying'']\<rparr>,
      \<lparr>title = ''Smoothie Bowl with Protein'',
       main_ingredients = [''protein powder'', ''frozen fruit'', ''spinach''],
       all_ingredients = [''protein powder'', ''frozen berries'', ''banana'', ''spinach'', ''almond milk'', ''chia seeds''],
       time = 5, calories = 300, tags = [''smoothie'', ''antioxidants'']\<rparr>]"

definition weekday_lunch_recipes :: "recipe list" where
  "weekday_lunch_recipes =
     [
      \<lparr>title = ''Grilled Chicken Caesar Wrap'',
       main_ingredients = [''grilled chicken'', ''romaine'', ''whole wheat tortilla''],
       all_ingredients = [''grilled chicken breast'', ''romaine lettuce'', ''whole wheat tortilla'', ''light caesar dressing'', ''parmesan''],
       time = 10, calories = 380, tags = [''portable'', ''high-protein'']\<rparr>,
      \<lparr>title = ''Quinoa Power Bowl'',
       main_ingredients = [''quinoa'', ''chickpeas'', ''vegetables''],
       all_ingredients = [''quinoa'', ''chickpeas'', ''cucumber'', ''cherry tomatoes'', ''feta cheese'', ''olive oil''],
       time = 15, calories = 420, tags = [''vegetarian'', ''complete-protein'']\<rparr>,
      \<lparr>title = ''Turkey and Hummus Wrap'',
       main_ingredients = [''sliced turkey'', ''hummus'', ''vegetables''],
       all_ingredients = [''sliced turkey'', ''hummus'', ''whole wheat wrap'', ''lettuce'', ''cucumber'', ''red bell pepper''],
       time = 5, calories = 340, tags = [''quick'', ''lean-protein'']\<rparr>,
      \<lparr>title = ''Black Bean and Rice Bowl'',
       main_ingredients = [''black beans'', ''brown rice'', ''salsa''],
       all_ingredients = [''black beans'', ''brown rice'', ''salsa'', ''corn'', ''bell peppers'', ''cilantro''],
       time = 12, calories = 360, tags = [''vegetarian'', ''fiber-rich'']\<rparr>]"

definition baked_salmon :: recipe where
  "baked_salmon =
      \<lparr>title = ''Baked Salmon with Roasted Vegetables'',
       main_ingredients = [''salmon'', ''broccoli'', ''sweet potato''],
       all_ingredients = [''salmon fillets'', ''broccoli'', ''sweet potato'', ''olive oil'', ''lemon'', ''herbs''],
       time = 25, calories = 420, tags = [''omega-3'', ''one-pan'']\<rparr>"

definition grilled_chicken :: recipe where
  "grilled_chicken =
      \<lparr>title = ''Grilled Chicken with Quinoa'',
       main_ingredients = [''chicken breast'', ''quinoa'', ''green beans''],
       all_ingredients = [''chicken breast'', ''quinoa'', ''green beans'', ''garlic'', ''olive oil'', ''lemon''],
       time = 20, calories = 380, tags = [''lean-protein'', ''complete'']\<rparr>"

definition turkey_meatballs :: recipe where
  "turkey_meatballs =
      \<lparr>title = ''Turkey Meatballs with Zucchini Noodles'',
       main_ingredients = [''ground turkey'', ''zucchini'', ''marinara''],
       all_ingredients = [''lean ground turkey'', ''zucchini'', ''marinara sauce'', ''garlic'', ''italian herbs''],
       time = 25, calories = 320, tags = [''low-carb'', ''lean'']\<rparr>"

definition chicken_fajitas :: recipe where
  "chicken_fajitas =
      \<lparr>title = ''Sheet Pan Chicken Fajitas'',
       main_ingredients = [''chicken strips'', ''bell peppers'', ''onions''],
       all_ingredients = [''chicken breast strips'', ''bell peppers'', ''onions'', ''fajita seasoning'', ''olive oil''],
       time = 20, calories = 320, tags = [''one-pan'', ''colorful'']\<rparr>"

definition weekday_dinner_recipes :: "recipe list" where
  "weekday_dinner_recipes = [baked_salmon, grilled_chicken, turkey_meatballs, chicken_fajitas]"

definition weekend_breakfast_recipes :: "recipe list" where
  "weekend_breakfast_recipes =
     [
      \<lparr>title = ''Buttermilk Pancakes with Turkey Sausage'',
       main_ingredients = [''flour'', ''buttermilk'', ''turkey sausage''],
       all_ingredients = [''flour'', ''buttermilk'', ''eggs'', ''butter'', ''turkey sausage'', ''syrup''],
       time = 25, calories = 480, tags = [''comfort'', ''weekend-special'']\<rparr>,
      \<lparr>title = ''Chicken and Waffles (Light)'',
       main_ingredients = [''chicken tenders'', ''waffle mix''],
       all_ingredients = [''chicken tenderloins'', ''waffle mix'', ''honey'', ''hot sauce''],
       time = 40, calories = 520, tags = [''soul-food'', ''special'']\<rparr>,
      \<lparr>title = ''Southern Breakfast Hash'',
       main_ingredients = [''potatoes'', ''turkey sausage'', ''eggs''],
       all_ingredients = [''diced potatoes'', ''turkey sausage'', ''eggs'', ''bell peppers'', ''onions''],
       time = 30, calories = 450, tags = [''hearty'', ''one-pan'']\<rparr>]"

definition weekend_dinner_recipes :: "recipe list" where
  "weekend_dinner_recipes =
     [
      \<lparr>title = ''Southern Fried Chicken with Mac and Cheese'',
       main_ingredients = [''chicken pieces'', ''pasta'', ''cheese''],
       all_ingredients = [''chicken pieces'', ''flour'', ''buttermilk'', ''elbow pasta'', ''cheddar cheese''],
       time = 60, calories = 720, tags = [''soul-food'', ''comfort'']\<rparr>,
      \<lparr>title = ''BBQ Ribs with Collard Greens'',
       main_ingredients = [''pork ribs'', ''collard greens''],
       all_ingredients = [''pork ribs'', ''bbq sauce'', ''collard greens'', ''smoked turkey'', ''onions''],
       time = 180, calories = 650, tags = [''soul-food'', ''slow-cooked'']\<rparr>,
      \<lparr>title = ''Shrimp and Grits'',
       main_ingredients = [''shrimp'', ''grits'', ''bacon''],
       all_ingredients = [''shrimp'', ''stone-ground grits'', ''bacon'', ''bell peppers'', ''onions''],
       time = 35, calories = 460, tags = [''lowcountry'', ''seafood'']\<rparr>]"
record recipe_db =
  weekday_breakfast :: "recipe list"
  weekday_lunch :: "recipe list"
  weekday_dinner :: "recipe list"
  weekend_breakfast :: "recipe list"
  weekend_dinner :: "recipe list"

definition create_recipe_database :: recipe_db where
  "create_recipe_database =
     \<lparr>weekday_breakfast = weekday_breakfast_recipes,
      weekday_lunch = weekday_lunch_recipes,
      weekday_dinner = weekday_dinner_recipes,
      weekend_breakfast = weekend_breakfast_recipes,
      weekend_dinner = weekend_dinner_recipes\<rparr>"

record rotator =
  prefs :: family_prefs
  expanded_recipes :: recipe_db

definition new_rotator :: "family_prefs \<Rightarrow> rotator" where
  "new_rotator preferences_manager =
     \<lparr>prefs = preferences_manager, expanded_recipes = create_recipe_database\<rparr>"

text \<open>\<^verbatim>\<open>random.shuffle\<close> reorders a list in place with the interpreter's generator. The
  outcome of each of the two calls is a parameter of the model: a function on recipe lists,
  which is a shuffle when it returns a permutation of its argument.\<close>

type_synonym shuffle = "recipe list \<Rightarrow> recipe list"

definition is_shuffle :: "shuffle \<Rightarrow> bool" where
  "is_shuffle sh = (\<forall>xs. mset (sh xs) = mset xs)"

text \<open>The group chosen by the first \<^verbatim>\<open>if\<close> cascade of \<^verbatim>\<open>get_smart_recommendations\<close>.\<close>

definition recipe_group :: "rotator \<Rightarrow> string \<Rightarrow> string \<Rightarrow> recipe list" where
  "recipe_group self meal_type day_type =
     (if day_type = ''weekend'' then
        (if meal_type = ''breakfast'' then weekend_breakfast (expanded_recipes self)
         else if meal_type = ''dinner'' then weekend_dinner (expanded_recipes self)
         else weekday_lunch (expanded_recipes self))
      else
        (if meal_type = ''breakfast'' then weekday_breakfast (expanded_recipes self)
         else if meal_type = ''lunch'' then weekday_lunch (expanded_recipes self)
         else weekday_dinner (expanded_recipes self)))"

text \<open>The first filtering loop (three \<^verbatim>\<open>continue\<close> guards, two-week window) and the
  second one (one-week window, skipping what is already collected).\<close>

fun first_pass :: "family_prefs \<Rightarrow> recipe list \<Rightarrow> recipe list \<Rightarrow> recipe list" where
  "first_pass p [] filtered_recipes = filtered_recipes"
| "first_pass p (r # rs) filtered_recipes =
     (if recipe_contains_dislikes p r then first_pass p rs filtered_recipes
      else if recipe_is_banned p r then first_pass p rs filtered_recipes
      else if was_served_recently p r 2 then first_pass p rs filtered_recipes
      else first_pass p rs (filtered_recipes @ [r]))"

fun second_pass :: "family_prefs \<Rightarrow> recipe list \<Rightarrow> recipe list \<Rightarrow> recipe list" where
  "second_pass p [] filtered_recipes = filtered_recipes"
| "second_pass p (r # rs) filtered_recipes =
     (if \<not> recipe_contains_dislikes p r \<and> \<not> recipe_is_banned p r
         \<and> \<not> was_served_recently p r 1 then
        (if r \<notin> set filtered_recipes then second_pass p rs (filtered_recipes @ [r])
         else second_pass p rs filtered_recipes)
      else second_pass p rs filtered_recipes)"

text \<open>\<^verbatim>\<open>filtered_recipes\<close> as it stands after both loops.\<close>

definition filtered_pool :: "rotator \<Rightarrow> string \<Rightarrow> string \<Rightarrow> int \<Rightarrow> recipe list" where
  "filtered_pool self meal_type day_type cnt =
     (let recipes = recipe_group self meal_type day_type;
          filtered_recipes = first_pass (prefs self) recipes []
      in if int (length filtered_recipes) < cnt then
           second_pass (prefs self) recipes filtered_recipes
         else filtered_recipes)"

text \<open>The loop that fills \<^verbatim>\<open>result\<close> from the non-favourites, with its \<^verbatim>\<open>break\<close>.\<close>

fun fill_result :: "recipe list \<Rightarrow> int \<Rightarrow> recipe list \<Rightarrow> recipe list" where
  "fill_result [] cnt result = result"
| "fill_result (r # rs) cnt result =
     (if int (length result) \<ge> cnt then result
      else if r \<notin> set result then fill_result rs cnt (result @ [r])
      else fill_result rs cnt result)"

definition get_smart_recommendations ::
  "shuffle \<Rightarrow> shuffle \<Rightarrow> rotator \<Rightarrow> string \<Rightarrow> string \<Rightarrow> int \<Rightarrow> recipe list" where
  "get_smart_recommendations shuffle1 shuffle2 self meal_type day_type cnt =
     (let filtered_recipes = filtered_pool self meal_type day_type cnt;
          favs = family_favorites (prefs_of (prefs self));
          favorites = shuffle1 (filter (\<lambda>r. title r \<in> set favs) filtered_recipes);
          non_favorites = shuffle2 (filter (\<lambda>r. title r \<notin> set favs) filtered_recipes);
          result = slice_to (max 1 (cnt div 3)) favorites
      in slice_to cnt (fill_result non_favorites cnt result))"

text \<open>A recipe that passes the first loop: no disliked ingredient, not banned, and not
  among the titles of the 14 most recent history entries.\<close>

definition compliant :: "family_prefs \<Rightarrow> recipe \<Rightarrow> bool" where
  "compliant p r =
     (\<not> recipe_contains_dislikes p r
      \<and> title r \<notin> set (never_suggest_again (prefs_of p))
      \<and> title r \<notin> meal_recipe ` set (drop (length (last_4_weeks p) - 14) (last_4_weeks p)))"

text \<open>The two partitions of \<^verbatim>\<open>filtered_recipes\<close>, before they are shuffled.\<close>

definition favorites_of :: "rotator \<Rightarrow> string \<Rightarrow> string \<Rightarrow> int \<Rightarrow> recipe list" where
  "favorites_of self m d cnt =
     filter (\<lambda>r. title r \<in> set (family_favorites (prefs_of (prefs self))))
       (filtered_pool self m d cnt)"

definition non_favorites_of :: "rotator \<Rightarrow> string \<Rightarrow> string \<Rightarrow> int \<Rightarrow> recipe list" where
  "non_favorites_of self m d cnt =
     filter (\<lambda>r. title r \<notin> set (family_favorites (prefs_of (prefs self))))
       (filtered_pool self m d cnt)"

text \<open>Two households: one that banned one weekend dinner and had another recently, and
  one that marked all three weekend dinners as favourites.\<close>

definition picky_prefs :: family_prefs where
  "picky_prefs =
     ban_recipe ''Shrimp and Grits''
       (log_meal ''BBQ Ribs with Collard Greens'' ''2024-01-01'' init_prefs)"

definition fond_prefs :: family_prefs where
  "fond_prefs =
     add_favorite ''Shrimp and Grits''
       (add_favorite ''BBQ Ribs with Collard Greens''
          (add_favorite ''Southern Fried Chicken with Mac and Cheese'' init_prefs))"

section \<open>SaleBasedRecommendationEngine\<close>

text \<open>Prices, savings and percentages are floats in the source; the model takes them as
  rationals, of which only sums and comparisons are used.\<close>

record sale_item =
  name :: string
  regular_price :: rat
  sale_price :: rat
  savings :: rat
  category :: string
  discount_percentage :: rat

record sale_match =
  ingredient :: string
  sale_info :: sale_item

record sale_matches =
  proteins :: "sale_match list"
  vegetables :: "sale_match list"
  pantry :: "sale_match list"

definition protein_keywords :: "string list" where
  "protein_keywords =
     [''chicken'', ''turkey'', ''salmon'', ''ground turkey'', ''beef'', ''pork'', ''fish'']"

definition vegetable_keywords :: "string list" where
  "vegetable_keywords =
     [''broccoli'', ''spinach'', ''bell pepper'', ''sweet potato'', ''asparagus'', ''green beans'']"

definition pantry_keywords :: "string list" where
  "pantry_keywords = [''rice'', ''quinoa'', ''pasta'', ''beans'', ''cheese'']"

definition extract_protein_type :: "string \<Rightarrow> string" where
  "extract_protein_type item_name =
     (if str_in ''chicken breast'' item_name \<or> str_in ''chicken'' item_name then ''chicken breast''
      else if str_in ''ground turkey'' item_name then ''ground turkey''
      else if str_in ''salmon'' item_name then ''salmon''
      else if str_in ''turkey'' item_name then ''turkey''
      else if str_in ''beef'' item_name then ''ground beef''
      else if str_in ''pork'' item_name then ''pork''
      else ''protein'')"

definition veg_map :: "(string \<times> string) list" where
  "veg_map =
     [(''broccoli'', ''broccoli''), (''spinach'', ''spinach''), (''bell pepper'', ''bell pepper''),
      (''sweet potato'', ''sweet potato''), (''asparagus'', ''asparagus''),
      (''green beans'', ''green beans''), (''carrots'', ''carrots''), (''onion'', ''onion'')]"

fun first_veg :: "(string \<times> string) list \<Rightarrow> string \<Rightarrow> string" where
  "first_veg [] item_name = ''vegetables''"
| "first_veg ((veg, standard_name) # rest) item_name =
     (if str_in veg item_name then standard_name else first_veg rest item_name)"

definition extract_vegetable_type :: "string \<Rightarrow> string" where
  "extract_vegetable_type item_name = first_veg veg_map item_name"

definition extract_pantry_type :: "string \<Rightarrow> string" where
  "extract_pantry_type item_name =
     (if str_in ''rice'' item_name then ''rice''
      else if str_in ''quinoa'' item_name then ''quinoa''
      else if str_in ''cheese'' item_name then ''cheese''
      else if str_in ''pasta'' item_name then ''pasta''
      else if str_in ''beans'' item_name then ''beans''
      else ''pantry item'')"

text \<open>\<^verbatim>\<open>any(k in name for k in keywords)\<close>.\<close>

definition any_keyword :: "string list \<Rightarrow> string \<Rightarrow> bool" where
  "any_keyword keywords item_name = list_ex (\<lambda>k. str_in k item_name) keywords"

text \<open>The loop of \<^verbatim>\<open>get_sale_ingredient_matches\<close> over the sale items, the three buckets
  being the accumulator.\<close>

fun classify_items :: "sale_item list \<Rightarrow> sale_matches \<Rightarrow> sale_matches" where
  "classify_items [] sale_matches = sale_matches"
| "classify_items (item # rest) sale_matches =
     (let nm = lower (name item)
      in if any_keyword protein_keywords nm then
           classify_items rest (sale_matches\<lparr>proteins := proteins sale_matches @
             [\<lparr>ingredient = extract_protein_type nm, sale_info = item\<rparr>]\<rparr>)
         else if any_keyword vegetable_keywords nm then
           classify_items rest (sale_matches\<lparr>vegetables := vegetables sale_matches @
             [\<lparr>ingredient = extract_vegetable_type nm, sale_info = item\<rparr>]\<rparr>)
         else if any_keyword pantry_keywords nm then
           classify_items rest (sale_matches\<lparr>pantry := pantry sale_matches @
             [\<lparr>ingredient = extract_pantry_type nm, sale_info = item\<rparr>]\<rparr>)
         else classify_items rest sale_matches)"

definition get_sale_ingredient_matches :: "sale_item list \<Rightarrow> sale_matches" where
  "get_sale_ingredient_matches sale_items =
     classify_items sale_items \<lparr>proteins = [], vegetables = [], pantry = []\<rparr>"

text \<open>An item whose lower-cased name holds no keyword of any of the three tables, and the
  items that the three buckets of a classification refer to.\<close>

definition no_keyword :: "sale_item \<Rightarrow> bool" where
  "no_keyword item =
     (\<not> any_keyword protein_keywords (lower (name item))
      \<and> \<not> any_keyword vegetable_keywords (lower (name item))
      \<and> \<not> any_keyword pantry_keywords (lower (name item)))"

definition bucket_items :: "sale_matches \<Rightarrow> sale_item set" where
  "bucket_items m = sale_info ` (set (proteins m) \<union> set (vegetables m) \<union> set (pantry m))"

definition whole_milk :: sale_item where
  "whole_milk =
     \<lparr>name = ''Whole Milk'', regular_price = 4, sale_price = 3, savings = 1,
      category = ''Dairy'', discount_percentage = 25\<rparr>"

definition chicken_on_sale :: sale_item where
  "chicken_on_sale =
     \<lparr>name = ''Chicken Breast'', regular_price = 6, sale_price = 4, savings = 2,
      category = ''Chicken'', discount_percentage = 333 / 10\<rparr>"

record sale_benefit =
  benefit_type :: string
  benefit_ingredient :: string
  benefit_savings :: rat
  benefit_discount :: rat

record scored_recipe = recipe +
  sale_score :: int
  sale_benefits :: "sale_benefit list"
  total_sale_savings :: rat

text \<open>\<^verbatim>\<open>any(match["ingredient"].lower() in ing for ing in recipe_ingredients)\<close>.\<close>

definition match_in_recipe :: "sale_match \<Rightarrow> string list \<Rightarrow> bool" where
  "match_in_recipe m recipe_ingredients =
     list_ex (\<lambda>ing. str_in (lower (ingredient m)) ing) recipe_ingredients"

text \<open>One of the three loops over a bucket (proteins with 10 points, vegetables with 5,
  pantry with 3); the score and the benefit list are the accumulator.\<close>

fun add_matches ::
  "int \<Rightarrow> string \<Rightarrow> string list \<Rightarrow> sale_match list \<Rightarrow> int \<times> sale_benefit list
     \<Rightarrow> int \<times> sale_benefit list" where
  "add_matches points ty recipe_ingredients [] acc = acc"
| "add_matches points ty recipe_ingredients (m # ms) (score, benefits) =
     (if match_in_recipe m recipe_ingredients then
        add_matches points ty recipe_ingredients ms
          (score + points,
           benefits @ [\<lparr>benefit_type = ty, benefit_ingredient = ingredient m,
                        benefit_savings = savings (sale_info m),
                        benefit_discount = discount_percentage (sale_info m)\<rparr>])
      else add_matches points ty recipe_ingredients ms (score, benefits))"

text \<open>The body of the loop over the candidates: the recipe is copied and annotated.\<close>

definition score_recipe_sales :: "sale_matches \<Rightarrow> recipe \<Rightarrow> scored_recipe" where
  "score_recipe_sales sale_matches r =
     (let recipe_ingredients = map lower (all_ingredients r);
          acc1 = add_matches 10 ''protein'' recipe_ingredients (proteins sale_matches) (0, []);
          acc2 = add_matches 5 ''vegetable'' recipe_ingredients (vegetables sale_matches) acc1;
          acc3 = add_matches 3 ''pantry'' recipe_ingredients (pantry sale_matches) acc2
      in \<lparr>title = title r, main_ingredients = main_ingredients r,
          all_ingredients = all_ingredients r, time = time r, calories = calories r,
          tags = tags r,
          sale_score = fst acc3, sale_benefits = snd acc3,
          total_sale_savings = sum_list (map benefit_savings (snd acc3))\<rparr>)"

definition sort_key_of :: "scored_recipe \<Rightarrow> int \<times> rat" where
  "sort_key_of x = (sale_score x, total_sale_savings x)"

text \<open>\<^verbatim>\<open>list.sort(key=k, reverse=True)\<close>: the stable sort applied to the reversed list, the
  outcome reversed again, so that equal keys keep their order.\<close>

definition sort_reverse :: "('a \<Rightarrow> 'k::linorder) \<Rightarrow> 'a list \<Rightarrow> 'a list" where
  "sort_reverse k xs = rev (sort_key k (rev xs))"

definition get_sale_based_recommendations ::
  "shuffle \<Rightarrow> shuffle \<Rightarrow> rotator \<Rightarrow> sale_item list \<Rightarrow> string \<Rightarrow> string \<Rightarrow> int
     \<Rightarrow> scored_recipe list" where
  "get_sale_based_recommendations shuffle1 shuffle2 rot sale_items meal_type day_type cnt =
     (let sale_matches = get_sale_ingredient_matches sale_items;
          all_recipes = get_smart_recommendations shuffle1 shuffle2 rot meal_type day_type (cnt * 2);
          scored_recipes = map (score_recipe_sales sale_matches) all_recipes
      in slice_to cnt (sort_reverse sort_key_of scored_recipes))"

text \<open>The entries of a bucket that match a recipe (their normalised name, lower-cased,
  is a substring of some lower-cased ingredient of the recipe).\<close>

definition matches_recipe :: "sale_match \<Rightarrow> recipe \<Rightarrow> bool" where
  "matches_recipe e r = match_in_recipe e (map lower (all_ingredients r))"

definition matched :: "recipe \<Rightarrow> sale_match list \<Rightarrow> sale_match list" where
  "matched r bucket = filter (\<lambda>e. matches_recipe e r) bucket"

text \<open>The order of the specification: descending by sale score, ties broken by the higher
  total savings.\<close>

definition ranks_at_least :: "scored_recipe \<Rightarrow> scored_recipe \<Rightarrow> bool" where
  "ranks_at_least a b =
     (sale_score a > sale_score b
      \<or> (sale_score a = sale_score b \<and> total_sale_savings a \<ge> total_sale_savings b))"

text \<open>Two sale items with savings of 5 each, a protein and a vegetable, and the bucket
  entries they give.\<close>

definition chicken_deal :: sale_item where
  "chicken_deal =
     \<lparr>name = ''Chicken Breast'', regular_price = 15, sale_price = 10, savings = 5,
      category = ''Chicken'', discount_percentage = 333 / 10\<rparr>"

definition broccoli_deal :: sale_item where
  "broccoli_deal =
     \<lparr>name = ''Broccoli Crowns'', regular_price = 10, sale_price = 5, savings = 5,
      category = ''Broccoli'', discount_percentage = 50\<rparr>"

definition deals :: "sale_item list" where
  "deals = [chicken_deal, broccoli_deal]"

definition chicken_match :: sale_match where
  "chicken_match = \<lparr>ingredient = ''chicken breast'', sale_info = chicken_deal\<rparr>"

definition broccoli_match :: sale_match where
  "broccoli_match = \<lparr>ingredient = ''broccoli'', sale_info = broccoli_deal\<rparr>"

section \<open>PurchaseTimingAnalyzer\<close>

record thresholds =
  excellent :: int
  good :: int
  modest :: int

record analyzer =
  buy_thresholds :: thresholds

definition new_analyzer :: analyzer where
  "new_analyzer = \<lparr>buy_thresholds = \<lparr>excellent = 25, good = 15, modest = 8\<rparr>\<rparr>"

text \<open>A formatted string keeps the number it interpolates: \<open>Num d\<close> stands for the text
  Python prints for the float \<open>d\<close>.\<close>

datatype piece = Str string | Num rat

record advice =
  action :: string
  reason :: "piece list"
  confidence :: string
  timing :: string

text \<open>The action strings start with a pictograph, here its UTF-8 bytes.\<close>

definition cart_sign :: string where
  "cart_sign = [CHR 0xF0, CHR 0x9F, CHR 0x9B, CHR 0x92]"

definition thinking_sign :: string where
  "thinking_sign = [CHR 0xF0, CHR 0x9F, CHR 0xA4, CHR 0x94]"

definition clock_sign :: string where
  "clock_sign = [CHR 0xE2, CHR 0x8F, CHR 0xB0]"

definition get_recommendation :: "analyzer \<Rightarrow> string \<Rightarrow> rat \<Rightarrow> advice" where
  "get_recommendation self item_name discount =
     (if discount \<ge> of_int (excellent (buy_thresholds self)) then
        \<lparr>action = cart_sign @ '' Buy Now & Stock Up'',
         reason = [Str ''Excellent '', Num discount, Str ''% discount''],
         confidence = ''High'',
         timing = ''Great deal - buy extra for meal prep''\<rparr>
      else if discount \<ge> of_int (good (buy_thresholds self)) then
        \<lparr>action = cart_sign @ '' Buy for This Week'',
         reason = [Str ''Good '', Num discount, Str ''% discount''],
         confidence = ''Medium'',
         timing = ''Good price for immediate use''\<rparr>
      else if discount \<ge> of_int (modest (buy_thresholds self)) then
        \<lparr>action = thinking_sign @ '' Consider If Needed'',
         reason = [Str ''Modest '', Num discount, Str ''% discount''],
         confidence = ''Medium'',
         timing = ''Buy if you need it this week''\<rparr>
      else
        \<lparr>action = clock_sign @ '' Wait for Better Deal'',
         reason = [Str ''Small discount, better deals likely coming''],
         confidence = ''Low'',
         timing = ''Wait unless urgently needed''\<rparr>)"

definition get_weekly_strategy :: "rat \<Rightarrow> nat \<Rightarrow> string" where
  "get_weekly_strategy total_savings high_value_count =
     (if total_savings > 20 then
        ''Great week for savings! Focus on items with 20%+ discounts.''
      else if total_savings > 10 then
        ''Decent savings available. Consider stocking up on non-perishables.''
      else ''Light sales week. Good time to use up what you have at home.'')"

datatype py_error = ZeroDivisionError

definition true_div :: "rat \<Rightarrow> nat \<Rightarrow> py_error + rat" where
  "true_div a n = (if n = 0 then Inl ZeroDivisionError else Inr (a / of_nat n))"

record weekly_savings =
  total_possible_savings :: rat
  high_value_count :: nat
  average_discount :: rat
  recommendation :: string

definition analyze_weekly_savings :: "analyzer \<Rightarrow> sale_item list \<Rightarrow> py_error + weekly_savings" where
  "analyze_weekly_savings self sale_items =
     (let total_savings = sum_list (map savings sale_items);
          high_value_items = filter (\<lambda>item. discount_percentage item \<ge> 20) sale_items;
          average =
            (if sale_items \<noteq> [] then
               true_div (sum_list (map discount_percentage sale_items)) (length sale_items)
             else Inr 0)
      in case average of
           Inl e \<Rightarrow> Inl e
         | Inr avg \<Rightarrow>
             Inr \<lparr>total_possible_savings = total_savings,
                  high_value_count = length high_value_items,
                  average_discount = avg,
                  recommendation =
                    get_weekly_strategy total_savings (length high_value_items)\<rparr>)"

section \<open>CalendarIntegrator\<close>

record event =
  event_name :: string
  duration_hours :: "rat option"

record integrator =
  calendar_events :: "string \<rightharpoonup> event list"
  busy_day_threshold :: int

definition new_integrator :: integrator where
  "new_integrator = \<lparr>calendar_events = Map.empty, busy_day_threshold = 6\<rparr>"

definition add_mock_events :: "string \<Rightarrow> event list \<Rightarrow> integrator \<Rightarrow> integrator" where
  "add_mock_events date_str evs self =
     self\<lparr>calendar_events := (calendar_events self)(date_str \<mapsto> evs)\<rparr>"

record meal_advice =
  meal_style :: string
  prep_style :: string
  message :: string
  prep_time :: string

definition get_meal_recommendation :: "bool \<Rightarrow> rat \<Rightarrow> meal_advice" where
  "get_meal_recommendation busy busy_hours =
     (if busy_hours \<ge> 8 then
        \<lparr>meal_style = ''late_night_ready'', prep_style = ''slow_cooker_or_instant_pot'',
         message = ''Very busy day - use slow cooker or Instant Pot'',
         prep_time = ''Set up in morning (10 min max)''\<rparr>
      else if busy_hours \<ge> 6 then
        \<lparr>meal_style = ''quick_and_easy'', prep_style = ''minimal_prep'',
         message = ''Busy day - keep meals simple and quick'',
         prep_time = ''20 minutes or less''\<rparr>
      else if busy_hours \<ge> 4 then
        \<lparr>meal_style = ''normal_with_prep'', prep_style = ''some_prep_ok'',
         message = ''Moderate schedule - normal meals with some prep OK'',
         prep_time = ''30-45 minutes OK''\<rparr>
      else
        \<lparr>meal_style = ''any_style'', prep_style = ''full_cooking_ok'',
         message = ''Light schedule - perfect day for cooking projects!'',
         prep_time = ''Any cooking time fine''\<rparr>)"

record day_analysis =
  is_busy :: bool
  total_hours :: rat
  event_count :: nat
  events :: "event list"
  day_recommendation :: meal_advice

text \<open>The loop adding up \<^verbatim>\<open>event.get("duration_hours", 1)\<close>.\<close>

fun add_durations :: "event list \<Rightarrow> rat \<Rightarrow> rat" where
  "add_durations [] total_busy_hours = total_busy_hours"
| "add_durations (e # es) total_busy_hours =
     add_durations es
       (total_busy_hours + (case duration_hours e of None \<Rightarrow> 1 | Some d \<Rightarrow> d))"

definition is_busy_day :: "integrator \<Rightarrow> string \<Rightarrow> day_analysis" where
  "is_busy_day self date_str =
     (let evs = (case calendar_events self date_str of None \<Rightarrow> [] | Some l \<Rightarrow> l);
          total_busy_hours = add_durations evs 0;
          busy = (total_busy_hours \<ge> of_int (busy_day_threshold self) \<or> length evs \<ge> 4)
      in \<lparr>is_busy = busy, total_hours = total_busy_hours, event_count = length evs,
          events = evs,
          day_recommendation = get_meal_recommendation busy total_busy_hours\<rparr>)"

text \<open>An entry of the weekly meal plan; \<^verbatim>\<open>date\<close> and \<^verbatim>\<open>day_name\<close> are read with
  \<^verbatim>\<open>.get(key, "")\<close>, so a missing key is \<open>None\<close>.\<close>

record day_info =
  info_date :: "string option"
  info_day_name :: "string option"
  is_weekend :: bool
  breakfast :: string
  lunch :: string
  dinner :: string
  late_night :: bool
  prep_needed :: bool

definition date_of :: "day_info \<Rightarrow> string" where
  "date_of info = (case info_date info of None \<Rightarrow> [] | Some d \<Rightarrow> d)"

definition day_name_of :: "day_info \<Rightarrow> string" where
  "day_name_of info = (case info_day_name info of None \<Rightarrow> [] | Some n \<Rightarrow> n)"

record day_entry =
  entry_day :: string
  entry_date :: string
  busy_hours :: rat
  entry_recommendation :: meal_advice

record weekly_recommendations =
  meal_prep_strategy :: string
  shopping_strategy :: string
  cooking_strategy :: string
  specific_suggestions :: "string list"

record weekly_analysis =
  busy_days :: "day_entry list"
  light_days :: "day_entry list"
  best_prep_days :: "string list"
  late_night_needed :: "string list"
  cooking_project_days :: "string list"
  weekly_recs :: weekly_recommendations

text \<open>\<^verbatim>\<open>sep.join(xs)\<close>.\<close>

fun join :: "string \<Rightarrow> string list \<Rightarrow> string" where
  "join sep [] = []"
| "join sep [x] = x"
| "join sep (x # y # ys) = x @ sep @ join sep (y # ys)"

definition generate_weekly_recommendations :: "weekly_analysis \<Rightarrow> weekly_recommendations" where
  "generate_weekly_recommendations analysis =
     (let busy_day_count = length (busy_days analysis);
          r0 = \<lparr>meal_prep_strategy = [], shopping_strategy = [], cooking_strategy = [],
                specific_suggestions = []\<rparr>;
          r1 = (if busy_day_count \<ge> 4 then
                  r0\<lparr>meal_prep_strategy := ''Heavy prep recommended - prep 3-4 meals on Sunday'',
                     specific_suggestions := specific_suggestions r0 @
                       [''Sunday: 2-3 hours of meal prep'',
                        ''Focus on slow cooker and one-pot meals'']\<rparr>
                else if busy_day_count \<ge> 2 then
                  r0\<lparr>meal_prep_strategy := ''Moderate prep - focus on proteins and grains'',
                     specific_suggestions := specific_suggestions r0 @
                       [''Sunday: 1-2 hours protein and grain prep'']\<rparr>
                else
                  r0\<lparr>meal_prep_strategy := ''Minimal prep needed - cook fresh most days'',
                     specific_suggestions := specific_suggestions r0 @
                       [''Light prep - just wash and chop vegetables'']\<rparr>);
          r2 = (if late_night_needed analysis \<noteq> [] then
                  r1\<lparr>shopping_strategy := ''Buy slow cooker/Instant Pot ingredients'',
                     specific_suggestions := specific_suggestions r1 @
                       [''Late night meals needed: '' @ join '', '' (late_night_needed analysis)]\<rparr>
                else r1)
      in if cooking_project_days analysis \<noteq> [] then
           r2\<lparr>cooking_strategy := ''Perfect days for cooking projects: ''
                 @ join '', '' (cooking_project_days analysis),
              specific_suggestions := specific_suggestions r2 @
                [''Try new recipes or make-ahead meals on light days'']\<rparr>
         else r2)"

text \<open>The loop of \<^verbatim>\<open>analyze_weekly_schedule\<close> over the items of the plan, in the
  dictionary's order.\<close>

fun analyze_days ::
  "integrator \<Rightarrow> (string \<times> day_info) list \<Rightarrow> weekly_analysis \<Rightarrow> weekly_analysis" where
  "analyze_days self [] wa = wa"
| "analyze_days self ((day_key, info) # rest) wa =
     (let date_str = date_of info;
          day_nm = day_name_of info;
          da = is_busy_day self date_str;
          entry = \<lparr>entry_day = day_nm, entry_date = date_str, busy_hours = total_hours da,
                   entry_recommendation = day_recommendation da\<rparr>
      in if is_busy da then
           (let wa1 = wa\<lparr>busy_days := busy_days wa @ [entry]\<rparr>
            in if total_hours da \<ge> 8 then
                 analyze_days self rest
                   (wa1\<lparr>late_night_needed := late_night_needed wa1 @ [day_nm]\<rparr>)
               else analyze_days self rest wa1)
         else
           (let wa1 = wa\<lparr>light_days := light_days wa @ [entry]\<rparr>
            in if day_nm \<in> set [''Sunday'', ''Saturday''] then
                 analyze_days self rest (wa1\<lparr>best_prep_days := best_prep_days wa1 @ [day_nm]\<rparr>)
               else if total_hours da < 2 then
                 analyze_days self rest
                   (wa1\<lparr>cooking_project_days := cooking_project_days wa1 @ [day_nm]\<rparr>)
               else analyze_days self rest wa1))"

text \<open>The dictionary \<^verbatim>\<open>weekly_analysis\<close> as it is initialised.\<close>

definition empty_analysis :: weekly_analysis where
  "empty_analysis =
     \<lparr>busy_days = [], light_days = [], best_prep_days = [],
      late_night_needed = [], cooking_project_days = [],
      weekly_recs = \<lparr>meal_prep_strategy = [], shopping_strategy = [],
                     cooking_strategy = [], specific_suggestions = []\<rparr>\<rparr>"

definition analyze_weekly_schedule ::
  "integrator \<Rightarrow> (string \<times> day_info) list \<Rightarrow> weekly_analysis" where
  "analyze_weekly_schedule self week_meal_plan =
     (let wa = analyze_days self week_meal_plan empty_analysis
      in wa\<lparr>weekly_recs := generate_weekly_recommendations wa\<rparr>)"

text \<open>A week as the application builds it: seven entries \<^verbatim>\<open>day_0\<close> to \<^verbatim>\<open>day_6\<close> with
  empty meals, here starting on a Monday, and the mock calendar of
  \<^verbatim>\<open>create_meal_prep_ui\<close> (meetings on Monday, Wednesday and Friday, a long Tuesday).\<close>

definition plan_day :: "string \<Rightarrow> string \<Rightarrow> bool \<Rightarrow> day_info" where
  "plan_day d n w =
     \<lparr>info_date = Some d, info_day_name = Some n, is_weekend = w, breakfast = [],
      lunch = [], dinner = [], late_night = False, prep_needed = False\<rparr>"

definition sample_week :: "(string \<times> day_info) list" where
  "sample_week =
     [(''day_0'', plan_day ''2024-01-01'' ''Monday'' False),
      (''day_1'', plan_day ''2024-01-02'' ''Tuesday'' False),
      (''day_2'', plan_day ''2024-01-03'' ''Wednesday'' False),
      (''day_3'', plan_day ''2024-01-04'' ''Thursday'' False),
      (''day_4'', plan_day ''2024-01-05'' ''Friday'' False),
      (''day_5'', plan_day ''2024-01-06'' ''Saturday'' True),
      (''day_6'', plan_day ''2024-01-07'' ''Sunday'' True)]"

definition meeting_day :: "event list" where
  "meeting_day =
     [\<lparr>event_name = ''Work meetings'', duration_hours = Some 6\<rparr>,
      \<lparr>event_name = ''Commute'', duration_hours = Some (3 / 2)\<rparr>]"

definition long_day :: "event list" where
  "long_day =
     [\<lparr>event_name = ''Work'', duration_hours = Some 8\<rparr>,
      \<lparr>event_name = ''Evening event'', duration_hours = Some 2\<rparr>]"

definition sample_calendar :: integrator where
  "sample_calendar =
     add_mock_events ''2024-01-05'' meeting_day
       (add_mock_events ''2024-01-03'' meeting_day
          (add_mock_events ''2024-01-02'' long_day
             (add_mock_events ''2024-01-01'' meeting_day new_integrator)))"

section \<open>Strings and slices: basic facts\<close>

lemmas str_eval =
  lower_def lower_char_def upper_case_def lower_case_def strip_def is_space_def

lemma case_table_keys: "fst ` set (zip upper_case lower_case) = set upper_case"
proof -
  have "length upper_case = length lower_case"
    by (simp add: upper_case_def lower_case_def)
  then have "map fst (zip upper_case lower_case) = upper_case"
    by simp
  then show ?thesis
    by (metis set_map)
qed

lemma lower_char_not_upper: "lower_char c \<notin> set upper_case"
proof (cases "map_of (zip upper_case lower_case) c")
  case None
  then have "c \<notin> set upper_case"
    by (simp add: map_of_eq_None_iff case_table_keys)
  with None show ?thesis by (simp add: lower_char_def)
next
  case (Some d)
  then have "d \<in> set lower_case"
    by (meson map_of_SomeD set_zip_rightD)
  moreover have "set lower_case \<inter> set upper_case = {}"
    by (simp add: upper_case_def lower_case_def)
  ultimately show ?thesis using Some by (auto simp: lower_char_def)
qed

lemma lower_char_fix: "c \<notin> set upper_case \<Longrightarrow> lower_char c = c"
proof -
  assume "c \<notin> set upper_case"
  then have "map_of (zip upper_case lower_case) c = None"
    by (simp add: map_of_eq_None_iff case_table_keys)
  then show ?thesis by (simp add: lower_char_def)
qed

lemma lower_idem: "lower (lower s) = lower s"
  by (simp add: lower_def lower_char_fix lower_char_not_upper)

lemma slice_from_neg: "0 < n \<Longrightarrow> slice_from (- int n) xs = drop (length xs - n) xs"
  by (auto simp: slice_from_def nat_diff_distrib' intro: arg_cong2 [where f = drop])

section \<open>Meal history\<close>

lemma log_meal_hist:
  "last_4_weeks (log_meal t d s) =
     (let h = last_4_weeks s @ [meal_of (t, d)] in drop (length h - 28) h)"
  by (auto simp: log_meal_def Let_def meal_of_def slice_from_neg [of 28, simplified])

lemma log_meals_snoc: "log_meals (ms @ [m]) s = log_meal (fst m) (snd m) (log_meals ms s)"
  by (simp add: log_meals_def split: prod.splits)

lemma log_meals_hist:
  "last_4_weeks (log_meals ms init_prefs) = drop (length ms - 28) (map meal_of ms)"
proof (induction ms rule: rev_induct)
  case Nil
  then show ?case by (simp add: log_meals_def init_prefs_def)
next
  case (snoc m ms)
  show ?case
  proof (cases "length ms < 28")
    case True
    with snoc show ?thesis by (simp add: log_meals_snoc log_meal_hist Let_def)
  next
    case False
    then have "Suc (length ms) - 28 = Suc (length ms - 28)" by simp
    with False snoc show ?thesis by (simp add: log_meals_snoc log_meal_hist Let_def)
  qed
qed

text \<open>
  Claim C7. Starting from the empty history, after any sequence \<open>ms\<close> of \<^verbatim>\<open>log_meal\<close>
  calls the history has at most 28 entries, and it is the last 28 logged (title, date)
  pairs in the order they were logged: the oldest entries are the ones dropped.
\<close>

theorem history_cap:
  "length (last_4_weeks (log_meals ms init_prefs)) \<le> 28
   \<and> last_4_weeks (log_meals ms init_prefs) = drop (length ms - 28) (map meal_of ms)"
  by (simp add: log_meals_hist)

section \<open>Dislikes and loves\<close>

lemma exclusive_init: "exclusive init_prefs"
  by (simp add: exclusive_def init_prefs_def)

lemma add_dislike_exclusive:
  assumes "exclusive s"
  shows "exclusive (add_dislike x s)"
    and "strip (lower x) \<in> set (disliked_ingredients (prefs_of (add_dislike x s)))"
    and "strip (lower x) \<notin> set (loved_ingredients (prefs_of (add_dislike x s)))"
  using assms by (auto simp: exclusive_def add_dislike_def Let_def)

lemma add_love_exclusive:
  assumes "exclusive s"
  shows "exclusive (add_love x s)"
    and "strip (lower x) \<in> set (loved_ingredients (prefs_of (add_love x s)))"
    and "strip (lower x) \<notin> set (disliked_ingredients (prefs_of (add_love x s)))"
  using assms by (auto simp: exclusive_def add_love_def Let_def)

lemma run_calls_snoc: "run_calls (cs @ [c]) s = do_call c (run_calls cs s)"
  by (simp add: run_calls_def)

lemma run_calls_exclusive: "exclusive (run_calls cs init_prefs)"
proof (induction cs rule: rev_induct)
  case Nil
  show ?case by (simp add: run_calls_def exclusive_init)
next
  case (snoc c cs)
  then show ?case
    by (cases c) (simp_all add: run_calls_snoc add_dislike_exclusive add_love_exclusive)
qed

text \<open>
  Claim C2. From the initial empty preferences, after any sequence \<open>cs\<close> of
  \<^verbatim>\<open>add_dislike\<close> and \<^verbatim>\<open>add_love\<close> calls no string is in both lists; one more
  \<^verbatim>\<open>add_dislike(x)\<close> leaves the normalised \<open>x\<close> out of the loves, and one more
  \<^verbatim>\<open>add_love(x)\<close> leaves it out of the dislikes.
\<close>

theorem dislikes_loves_disjoint:
  "set (disliked_ingredients (prefs_of (run_calls cs init_prefs)))
     \<inter> set (loved_ingredients (prefs_of (run_calls cs init_prefs))) = {}
   \<and> strip (lower x)
       \<notin> set (loved_ingredients (prefs_of (add_dislike x (run_calls cs init_prefs))))
   \<and> strip (lower x)
       \<notin> set (disliked_ingredients (prefs_of (add_love x (run_calls cs init_prefs))))"
  using run_calls_exclusive [of cs] add_dislike_exclusive(3) add_love_exclusive(3)
  by (simp add: exclusive_def)

section \<open>Purchase timing\<close>

text \<open>
  Claim C9. \<^verbatim>\<open>analyze_weekly_savings\<close> on the empty list of sale items returns, without
  the division error, total savings 0, no high-value item, average discount 0 and the
  light-sales-week message.
\<close>

theorem empty_week_savings:
  "analyze_weekly_savings new_analyzer [] =
     Inr \<lparr>total_possible_savings = 0, high_value_count = 0, average_discount = 0,
          recommendation = ''Light sales week. Good time to use up what you have at home.''\<rparr>"
  by (simp add: analyze_weekly_savings_def get_weekly_strategy_def)

lemma analyze_weekly_savings_total: "\<exists>w. analyze_weekly_savings a items = Inr w"
  by (cases items) (simp_all add: analyze_weekly_savings_def true_div_def Let_def)

text \<open>
  Claim C4. For every discount percentage \<open>d\<close>, \<^verbatim>\<open>get_recommendation\<close> answers: from 25
  up, buy now and stock up, with high confidence; from 15 and below 25, buy for this week,
  medium; from 8 and below 15, consider if needed, medium; below 8, wait for a better deal,
  low. The lower bounds are inclusive.
\<close>

theorem purchase_bands:
  "(25 \<le> d \<longrightarrow>
      action (get_recommendation new_analyzer nm d) = cart_sign @ '' Buy Now & Stock Up''
      \<and> confidence (get_recommendation new_analyzer nm d) = ''High'')
   \<and> (15 \<le> d \<and> d < 25 \<longrightarrow>
      action (get_recommendation new_analyzer nm d) = cart_sign @ '' Buy for This Week''
      \<and> confidence (get_recommendation new_analyzer nm d) = ''Medium'')
   \<and> (8 \<le> d \<and> d < 15 \<longrightarrow>
      action (get_recommendation new_analyzer nm d) = thinking_sign @ '' Consider If Needed''
      \<and> confidence (get_recommendation new_analyzer nm d) = ''Medium'')
   \<and> (d < 8 \<longrightarrow>
      action (get_recommendation new_analyzer nm d) = clock_sign @ '' Wait for Better Deal''
      \<and> confidence (get_recommendation new_analyzer nm d) = ''Low'')"
  by (simp add: get_recommendation_def new_analyzer_def)

text \<open>The four boundary values of the specification: 25.0, 24.9, 8.0 and 7.9.\<close>

theorem purchase_bands_witness:
  "action (get_recommendation new_analyzer ''Chicken Breast'' 25)
     = cart_sign @ '' Buy Now & Stock Up''
   \<and> confidence (get_recommendation new_analyzer ''Chicken Breast'' 25) = ''High''
   \<and> action (get_recommendation new_analyzer ''Chicken Breast'' (249 / 10))
     = cart_sign @ '' Buy for This Week''
   \<and> confidence (get_recommendation new_analyzer ''Chicken Breast'' (249 / 10)) = ''Medium''
   \<and> action (get_recommendation new_analyzer ''Chicken Breast'' 8)
     = thinking_sign @ '' Consider If Needed''
   \<and> confidence (get_recommendation new_analyzer ''Chicken Breast'' 8) = ''Medium''
   \<and> action (get_recommendation new_analyzer ''Chicken Breast'' (79 / 10))
     = clock_sign @ '' Wait for Better Deal''
   \<and> confidence (get_recommendation new_analyzer ''Chicken Breast'' (79 / 10)) = ''Low''"
  using purchase_bands [of 25 "''Chicken Breast''"]
    purchase_bands [of "249 / 10" "''Chicken Breast''"]
    purchase_bands [of 8 "''Chicken Breast''"]
    purchase_bands [of "79 / 10" "''Chicken Breast''"]
  by simp

section \<open>Disliked ingredients in a recipe\<close>

lemma dislike_in_any_iff: "dislike_in_any d ings \<longleftrightarrow> (\<exists>ing \<in> set ings. str_in d ing)"
  by (induction ings) auto

lemma any_dislike_iff:
  "any_dislike ds ings \<longleftrightarrow> (\<exists>d \<in> set ds. \<exists>ing \<in> set ings. str_in d ing)"
  by (induction ds) (auto simp: dislike_in_any_iff)

lemma recipe_contains_dislikes_iff:
  "recipe_contains_dislikes p r \<longleftrightarrow>
     (\<exists>d \<in> set (disliked_ingredients (prefs_of p)). \<exists>ing \<in> set (all_ingredients r).
        str_in d (lower ing))"
  by (auto simp: recipe_contains_dislikes_def any_dislike_iff)

lemma lower_fix: "set s \<inter> set upper_case = {} \<Longrightarrow> lower s = s"
  by (induction s) (auto simp: lower_def lower_char_fix)

lemma strip_subset: "set (strip s) \<subseteq> set s"
  by (auto simp: strip_def dest!: set_dropWhileD)

lemma normalised_fix: "lower (strip (lower x)) = strip (lower x)"
proof (rule lower_fix)
  have "set (lower x) \<inter> set upper_case = {}"
    by (auto simp: lower_def lower_char_not_upper)
  with strip_subset [of "lower x"] show "set (strip (lower x)) \<inter> set upper_case = {}"
    by blast
qed

lemma add_dislike_lower_cased: "lower_cased s \<Longrightarrow> lower_cased (add_dislike x s)"
  by (auto simp: lower_cased_def add_dislike_def Let_def normalised_fix)

lemma add_love_lower_cased: "lower_cased s \<Longrightarrow> lower_cased (add_love x s)"
  by (auto simp: lower_cased_def add_love_def Let_def dest: notin_set_remove1)

text \<open>Every state that \<^verbatim>\<open>add_dislike\<close> and \<^verbatim>\<open>add_love\<close> reach stores lower-cased
  dislikes.\<close>

lemma run_calls_lower_cased: "lower_cased (run_calls cs init_prefs)"
proof (induction cs rule: rev_induct)
  case Nil
  show ?case by (simp add: run_calls_def lower_cased_def init_prefs_def)
next
  case (snoc c cs)
  then show ?case
    by (cases c) (simp_all add: run_calls_snoc add_dislike_lower_cased add_love_lower_cased)
qed

text \<open>
  Claim C8, as the code has it. For every recipe and every preference state whose
  disliked strings are stored lower-cased: if some ingredient of the recipe contains, case
  ignored, some disliked string, then \<^verbatim>\<open>recipe_contains_dislikes\<close> returns True.
\<close>

theorem dislikes_found:
  assumes "lower_cased p"
    and "ing \<in> set (all_ingredients r)"
    and "d \<in> set (disliked_ingredients (prefs_of p))"
    and "contains_ignoring_case ing d"
  shows "recipe_contains_dislikes p r"
proof -
  from assms(1,3) have "lower d = d"
    by (simp add: lower_cased_def)
  with assms(4) have "str_in d (lower ing)"
    by (simp add: contains_ignoring_case_def)
  with assms(2,3) show ?thesis
    unfolding recipe_contains_dislikes_iff by blast
qed

theorem dislikes_found_witness:
  "lower_cased (add_dislike ''Chicken '' init_prefs)
   \<and> ''chicken breast'' \<in> set (all_ingredients grilled_chicken)
   \<and> ''chicken'' \<in> set (disliked_ingredients (prefs_of (add_dislike ''Chicken '' init_prefs)))
   \<and> contains_ignoring_case ''chicken breast'' ''chicken''
   \<and> recipe_contains_dislikes (add_dislike ''Chicken '' init_prefs) grilled_chicken"
proof -
  have "lower_cased init_prefs"
    by (simp add: lower_cased_def init_prefs_def)
  then have a: "lower_cased (add_dislike ''Chicken '' init_prefs)"
    by (rule add_dislike_lower_cased)
  have b: "''chicken breast'' \<in> set (all_ingredients grilled_chicken)"
    by (simp add: grilled_chicken_def)
  have c: "''chicken''
      \<in> set (disliked_ingredients (prefs_of (add_dislike ''Chicken '' init_prefs)))"
    by (simp add: add_dislike_def init_prefs_def str_eval)
  have d: "contains_ignoring_case ''chicken breast'' ''chicken''"
    by (simp add: contains_ignoring_case_def str_eval)
  from a b c d dislikes_found [OF a b c d] show ?thesis by simp
qed

text \<open>The claim as stated, for any list of disliked strings, fails on a disliked string
  with a capital letter: the ingredient contains it when case is ignored, and the check
  answers False.\<close>

theorem dislikes_case_counterexample:
  "''chicken breast'' \<in> set (all_ingredients grilled_chicken)
   \<and> ''Chicken'' \<in> set (disliked_ingredients (prefs_of capital_prefs))
   \<and> contains_ignoring_case ''chicken breast'' ''Chicken''
   \<and> \<not> recipe_contains_dislikes capital_prefs grilled_chicken"
  by (simp add: capital_prefs_def init_prefs_def grilled_chicken_def
      contains_ignoring_case_def recipe_contains_dislikes_def str_eval)

section \<open>Sale items without a keyword\<close>

lemma classify_items_append:
  "classify_items (xs @ ys) acc = classify_items ys (classify_items xs acc)"
  by (induction xs arbitrary: acc) (simp_all add: Let_def)

lemma classify_items_skip:
  "no_keyword item \<Longrightarrow> classify_items (item # rest) acc = classify_items rest acc"
  by (simp add: no_keyword_def)

lemma bucket_items_upd:
  "bucket_items (m\<lparr>proteins := proteins m @ [e]\<rparr>) = insert (sale_info e) (bucket_items m)"
  "bucket_items (m\<lparr>vegetables := vegetables m @ [e]\<rparr>) = insert (sale_info e) (bucket_items m)"
  "bucket_items (m\<lparr>pantry := pantry m @ [e]\<rparr>) = insert (sale_info e) (bucket_items m)"
  by (auto simp: bucket_items_def)

lemma classify_items_step:
  "\<exists>acc'. classify_items (item # rest) acc = classify_items rest acc'
     \<and> bucket_items acc' \<subseteq> bucket_items acc \<union> {i. i = item \<and> \<not> no_keyword i}"
proof (cases "no_keyword item")
  case True
  then show ?thesis by (auto simp: classify_items_skip simp del: classify_items.simps)
next
  case False
  then show ?thesis
    unfolding classify_items.simps Let_def no_keyword_def
    by (auto simp: bucket_items_upd simp del: classify_items.simps)
qed


lemma classify_items_sources:
  "bucket_items (classify_items xs acc) \<subseteq> bucket_items acc \<union> {i \<in> set xs. \<not> no_keyword i}"
proof (induction xs arbitrary: acc)
  case Nil
  show ?case by simp
next
  case (Cons item rest)
  from classify_items_step [of item rest acc] obtain acc' where
    eq: "classify_items (item # rest) acc = classify_items rest acc'"
    and sub: "bucket_items acc' \<subseteq> bucket_items acc \<union> {i. i = item \<and> \<not> no_keyword i}"
    by blast
  from Cons.IH [of acc'] sub show ?case
    unfolding eq by auto
qed

text \<open>
  Claim C10. A sale item whose lower-cased name holds no protein, vegetable or pantry
  keyword is referred to by no bucket of \<^verbatim>\<open>get_sale_ingredient_matches\<close>, whatever the
  list of sale items; the classification is the one of the list without that item.
\<close>

theorem unmatched_item_dropped:
  assumes "no_keyword item"
  shows "item \<notin> bucket_items (get_sale_ingredient_matches items)
    \<and> get_sale_ingredient_matches (xs @ item # ys) = get_sale_ingredient_matches (xs @ ys)"
proof
  have "bucket_items \<lparr>proteins = [], vegetables = [], pantry = []\<rparr> = {}"
    by (simp add: bucket_items_def)
  with classify_items_sources [of items "\<lparr>proteins = [], vegetables = [], pantry = []\<rparr>"] assms
  show "item \<notin> bucket_items (get_sale_ingredient_matches items)"
    unfolding get_sale_ingredient_matches_def by blast
  from assms
  show "get_sale_ingredient_matches (xs @ item # ys) = get_sale_ingredient_matches (xs @ ys)"
    by (simp add: get_sale_ingredient_matches_def classify_items_append classify_items_skip
        del: classify_items.simps)
qed

lemma whole_milk_no_keyword: "no_keyword whole_milk"
  by (simp add: no_keyword_def whole_milk_def any_keyword_def protein_keywords_def
      vegetable_keywords_def pantry_keywords_def str_eval)

text \<open>The dairy item named Whole Milk, next to a chicken item.\<close>

theorem unmatched_item_dropped_witness:
  "no_keyword whole_milk
   \<and> whole_milk \<notin> bucket_items (get_sale_ingredient_matches [chicken_on_sale, whole_milk])
   \<and> get_sale_ingredient_matches ([chicken_on_sale] @ whole_milk # [])
       = get_sale_ingredient_matches ([chicken_on_sale] @ [])"
  using whole_milk_no_keyword
    unmatched_item_dropped [OF whole_milk_no_keyword, of "[chicken_on_sale, whole_milk]" "[chicken_on_sale]" "[]"]
  by blast

section \<open>Weekly schedule\<close>

lemma analyze_days_step:
  "\<exists>wa'. analyze_days self ((k, info) # rest) wa = analyze_days self rest wa'
     \<and> set (cooking_project_days wa) \<subseteq> set (cooking_project_days wa')
     \<and> set (cooking_project_days wa')
          \<subseteq> set (cooking_project_days wa) \<union> {day_name_of info} - {''Saturday'', ''Sunday''}
            \<union> set (cooking_project_days wa)
     \<and> (\<not> is_busy (is_busy_day self (date_of info))
          \<and> total_hours (is_busy_day self (date_of info)) < 2
          \<and> day_name_of info \<noteq> ''Saturday'' \<and> day_name_of info \<noteq> ''Sunday''
        \<longrightarrow> day_name_of info \<in> set (cooking_project_days wa'))"
  unfolding analyze_days.simps Let_def
  by (auto simp del: analyze_days.simps)

lemma cooking_days_mono:
  "set (cooking_project_days wa) \<subseteq> set (cooking_project_days (analyze_days self plan wa))"
proof (induction plan arbitrary: wa)
  case Nil
  show ?case by simp
next
  case (Cons kd rest)
  obtain k info where kd: "kd = (k, info)" by (cases kd)
  from analyze_days_step [of self k info rest wa] obtain wa' where
    eq: "analyze_days self ((k, info) # rest) wa = analyze_days self rest wa'"
    and sub: "set (cooking_project_days wa) \<subseteq> set (cooking_project_days wa')"
    by blast
  from Cons.IH [of wa'] sub show ?case
    unfolding kd eq by blast
qed

lemma cooking_days_no_weekend:
  "set (cooking_project_days (analyze_days self plan wa))
     \<subseteq> set (cooking_project_days wa) \<union> (UNIV - {''Saturday'', ''Sunday''})"
proof (induction plan arbitrary: wa)
  case Nil
  show ?case by simp
next
  case (Cons kd rest)
  obtain k info where kd: "kd = (k, info)" by (cases kd)
  from analyze_days_step [of self k info rest wa] obtain wa' where
    eq: "analyze_days self ((k, info) # rest) wa = analyze_days self rest wa'"
    and sub: "set (cooking_project_days wa')
          \<subseteq> set (cooking_project_days wa) \<union> {day_name_of info} - {''Saturday'', ''Sunday''}
            \<union> set (cooking_project_days wa)"
    by blast
  from Cons.IH [of wa'] sub show ?case
    unfolding kd eq by blast
qed

lemma cooking_days_member:
  assumes "(k, info) \<in> set plan"
    and "\<not> is_busy (is_busy_day self (date_of info))"
    and "total_hours (is_busy_day self (date_of info)) < 2"
    and "day_name_of info \<noteq> ''Saturday''" and "day_name_of info \<noteq> ''Sunday''"
  shows "day_name_of info \<in> set (cooking_project_days (analyze_days self plan wa))"
  using assms(1)
proof (induction plan arbitrary: wa)
  case Nil
  then show ?case by simp
next
  case (Cons kd rest)
  obtain k' info' where kd: "kd = (k', info')" by (cases kd)
  from analyze_days_step [of self k' info' rest wa] obtain wa' where
    eq: "analyze_days self ((k', info') # rest) wa = analyze_days self rest wa'"
    and here: "\<not> is_busy (is_busy_day self (date_of info'))
          \<and> total_hours (is_busy_day self (date_of info')) < 2
          \<and> day_name_of info' \<noteq> ''Saturday'' \<and> day_name_of info' \<noteq> ''Sunday''
        \<longrightarrow> day_name_of info' \<in> set (cooking_project_days wa')"
    by blast
  show ?case
  proof (cases "(k, info) = kd")
    case True
    with kd here assms(2-5) have "day_name_of info \<in> set (cooking_project_days wa')"
      by simp
    with cooking_days_mono [of wa' self rest] show ?thesis
      unfolding kd eq by blast
  next
    case False
    with Cons.prems have "(k, info) \<in> set rest" by simp
    from Cons.IH [OF this, of wa'] show ?thesis
      unfolding kd eq .
  qed
qed

lemma cooking_days_schedule:
  "cooking_project_days (analyze_weekly_schedule self plan)
     = cooking_project_days (analyze_days self plan empty_analysis)"
  by (simp add: analyze_weekly_schedule_def Let_def)

text \<open>The same for the prep days: an iteration only appends to the list, and it appends
  the name of a light day called Saturday or Sunday.\<close>

lemma prep_days_step:
  "\<exists>wa'. analyze_days self ((k, info) # rest) wa = analyze_days self rest wa'
     \<and> set (best_prep_days wa) \<subseteq> set (best_prep_days wa')
     \<and> (\<not> is_busy (is_busy_day self (date_of info))
          \<and> (day_name_of info = ''Saturday'' \<or> day_name_of info = ''Sunday'')
        \<longrightarrow> day_name_of info \<in> set (best_prep_days wa'))"
  unfolding analyze_days.simps Let_def
  by (auto simp del: analyze_days.simps)

lemma prep_days_mono:
  "set (best_prep_days wa) \<subseteq> set (best_prep_days (analyze_days self plan wa))"
proof (induction plan arbitrary: wa)
  case Nil
  show ?case by simp
next
  case (Cons kd rest)
  obtain k info where kd: "kd = (k, info)" by (cases kd)
  from prep_days_step [of self k info rest wa] obtain wa' where
    eq: "analyze_days self ((k, info) # rest) wa = analyze_days self rest wa'"
    and sub: "set (best_prep_days wa) \<subseteq> set (best_prep_days wa')"
    by blast
  from Cons.IH [of wa'] sub show ?case
    unfolding kd eq by blast
qed

lemma prep_days_member:
  assumes "(k, info) \<in> set plan"
    and "\<not> is_busy (is_busy_day self (date_of info))"
    and "day_name_of info = ''Saturday'' \<or> day_name_of info = ''Sunday''"
  shows "day_name_of info \<in> set (best_prep_days (analyze_days self plan wa))"
  using assms(1)
proof (induction plan arbitrary: wa)
  case Nil
  then show ?case by simp
next
  case (Cons kd rest)
  obtain k' info' where kd: "kd = (k', info')" by (cases kd)
  from prep_days_step [of self k' info' rest wa] obtain wa' where
    eq: "analyze_days self ((k', info') # rest) wa = analyze_days self rest wa'"
    and here: "\<not> is_busy (is_busy_day self (date_of info'))
          \<and> (day_name_of info' = ''Saturday'' \<or> day_name_of info' = ''Sunday'')
        \<longrightarrow> day_name_of info' \<in> set (best_prep_days wa')"
    by blast
  show ?case
  proof (cases "(k, info) = kd")
    case True
    with kd here assms(2,3) have "day_name_of info \<in> set (best_prep_days wa')"
      by simp
    with prep_days_mono [of wa' self rest] show ?thesis
      unfolding kd eq by blast
  next
    case False
    with Cons.prems have "(k, info) \<in> set rest" by simp
    from Cons.IH [OF this, of wa'] show ?thesis
      unfolding kd eq .
  qed
qed

lemma prep_days_schedule:
  "best_prep_days (analyze_weekly_schedule self plan)
     = best_prep_days (analyze_days self plan empty_analysis)"
  by (simp add: analyze_weekly_schedule_def Let_def)

text \<open>A light Saturday or Sunday takes the first branch, the prep days, and the
  \<^verbatim>\<open>elif\<close> for the cooking-project days is not reached.\<close>

lemma weekend_never_project_day:
  "''Saturday'' \<notin> set (cooking_project_days (analyze_weekly_schedule self plan))
   \<and> ''Sunday'' \<notin> set (cooking_project_days (analyze_weekly_schedule self plan))"
  unfolding cooking_days_schedule
  using cooking_days_no_weekend [of self plan empty_analysis]
  by (auto simp: empty_analysis_def)

text \<open>
  Claim C6, as the code has it. For every weekly plan and calendar, and every day of the
  plan that is light (not busy): if the day has fewer than 2 busy hours and is not named
  Saturday or Sunday, it appears in the cooking-project days of
  \<^verbatim>\<open>analyze_weekly_schedule\<close>; if it is named Saturday or Sunday, it appears in the best
  prep days instead and not in the cooking-project days.
\<close>

theorem light_day_placement:
  assumes "(k, info) \<in> set plan"
    and "\<not> is_busy (is_busy_day self (date_of info))"
  shows "(total_hours (is_busy_day self (date_of info)) < 2
          \<and> day_name_of info \<noteq> ''Saturday'' \<and> day_name_of info \<noteq> ''Sunday''
        \<longrightarrow> day_name_of info \<in> set (cooking_project_days (analyze_weekly_schedule self plan)))
    \<and> (day_name_of info = ''Saturday'' \<or> day_name_of info = ''Sunday''
        \<longrightarrow> day_name_of info \<in> set (best_prep_days (analyze_weekly_schedule self plan))
          \<and> day_name_of info
              \<notin> set (cooking_project_days (analyze_weekly_schedule self plan)))"
proof (intro conjI impI)
  assume "total_hours (is_busy_day self (date_of info)) < 2
          \<and> day_name_of info \<noteq> ''Saturday'' \<and> day_name_of info \<noteq> ''Sunday''"
  then have "total_hours (is_busy_day self (date_of info)) < 2"
    and "day_name_of info \<noteq> ''Saturday''" and "day_name_of info \<noteq> ''Sunday''"
    by blast+
  with assms
  show "day_name_of info \<in> set (cooking_project_days (analyze_weekly_schedule self plan))"
    unfolding cooking_days_schedule by (rule cooking_days_member)
next
  assume weekend: "day_name_of info = ''Saturday'' \<or> day_name_of info = ''Sunday''"
  with assms
  show "day_name_of info \<in> set (best_prep_days (analyze_weekly_schedule self plan))"
    unfolding prep_days_schedule by (rule prep_days_member)
  from weekend weekend_never_project_day [of self plan]
  show "day_name_of info \<notin> set (cooking_project_days (analyze_weekly_schedule self plan))"
    by auto
qed

lemmas cal_eval = sample_calendar_def add_mock_events_def new_integrator_def is_busy_day_def
  meeting_day_def long_day_def date_of_def day_name_of_def plan_day_def get_meal_recommendation_def

lemma thursday_light:
  "\<not> is_busy (is_busy_day sample_calendar (date_of (plan_day ''2024-01-04'' ''Thursday'' False)))
   \<and> total_hours (is_busy_day sample_calendar (date_of (plan_day ''2024-01-04'' ''Thursday'' False))) < 2"
  by (simp add: cal_eval)

lemma saturday_light:
  "\<not> is_busy (is_busy_day sample_calendar (date_of (plan_day ''2024-01-06'' ''Saturday'' True)))"
  by (simp add: cal_eval)

text \<open>In the sample week Thursday and Saturday have no event: Thursday is a
  cooking-project day, Saturday a prep day and no cooking-project day.\<close>

theorem light_day_placement_witness:
  "(''day_3'', plan_day ''2024-01-04'' ''Thursday'' False) \<in> set sample_week
   \<and> \<not> is_busy (is_busy_day sample_calendar (date_of (plan_day ''2024-01-04'' ''Thursday'' False)))
   \<and> total_hours (is_busy_day sample_calendar (date_of (plan_day ''2024-01-04'' ''Thursday'' False))) < 2
   \<and> day_name_of (plan_day ''2024-01-04'' ''Thursday'' False) \<noteq> ''Saturday''
   \<and> day_name_of (plan_day ''2024-01-04'' ''Thursday'' False) \<noteq> ''Sunday''
   \<and> day_name_of (plan_day ''2024-01-04'' ''Thursday'' False)
       \<in> set (cooking_project_days (analyze_weekly_schedule sample_calendar sample_week))
   \<and> (''day_5'', plan_day ''2024-01-06'' ''Saturday'' True) \<in> set sample_week
   \<and> \<not> is_busy (is_busy_day sample_calendar (date_of (plan_day ''2024-01-06'' ''Saturday'' True)))
   \<and> day_name_of (plan_day ''2024-01-06'' ''Saturday'' True) = ''Saturday''
   \<and> day_name_of (plan_day ''2024-01-06'' ''Saturday'' True)
       \<in> set (best_prep_days (analyze_weekly_schedule sample_calendar sample_week))
   \<and> day_name_of (plan_day ''2024-01-06'' ''Saturday'' True)
       \<notin> set (cooking_project_days (analyze_weekly_schedule sample_calendar sample_week))"
proof -
  have a: "(''day_3'', plan_day ''2024-01-04'' ''Thursday'' False) \<in> set sample_week"
    by (simp add: sample_week_def)
  have b: "\<not> is_busy (is_busy_day sample_calendar (date_of (plan_day ''2024-01-04'' ''Thursday'' False)))"
    using thursday_light by simp
  have c: "total_hours (is_busy_day sample_calendar (date_of (plan_day ''2024-01-04'' ''Thursday'' False))) < 2"
    using thursday_light by simp
  have d: "day_name_of (plan_day ''2024-01-04'' ''Thursday'' False) \<noteq> ''Saturday''"
    by (simp add: day_name_of_def plan_day_def)
  have e: "day_name_of (plan_day ''2024-01-04'' ''Thursday'' False) \<noteq> ''Sunday''"
    by (simp add: day_name_of_def plan_day_def)
  have f: "(''day_5'', plan_day ''2024-01-06'' ''Saturday'' True) \<in> set sample_week"
    by (simp add: sample_week_def)
  have g: "day_name_of (plan_day ''2024-01-06'' ''Saturday'' True) = ''Saturday''"
    by (simp add: day_name_of_def plan_day_def)
  from a b c d e f g saturday_light
    light_day_placement [OF a b] light_day_placement [OF f saturday_light]
  show ?thesis by blast
qed

text \<open>In the sample week Saturday has no event at all: it is light with 0 busy hours and
  it is not among the cooking-project days.\<close>

theorem light_saturday_counterexample:
  "(''day_5'', plan_day ''2024-01-06'' ''Saturday'' True) \<in> set sample_week
   \<and> \<not> is_busy (is_busy_day sample_calendar (date_of (plan_day ''2024-01-06'' ''Saturday'' True)))
   \<and> total_hours (is_busy_day sample_calendar (date_of (plan_day ''2024-01-06'' ''Saturday'' True))) < 2
   \<and> day_name_of (plan_day ''2024-01-06'' ''Saturday'' True)
       \<notin> set (cooking_project_days (analyze_weekly_schedule sample_calendar sample_week))"
proof -
  have "day_name_of (plan_day ''2024-01-06'' ''Saturday'' True) = ''Saturday''"
    by (simp add: day_name_of_def plan_day_def)
  moreover have "(''day_5'', plan_day ''2024-01-06'' ''Saturday'' True) \<in> set sample_week"
    by (simp add: sample_week_def)
  moreover have "\<not> is_busy (is_busy_day sample_calendar (date_of (plan_day ''2024-01-06'' ''Saturday'' True)))
   \<and> total_hours (is_busy_day sample_calendar (date_of (plan_day ''2024-01-06'' ''Saturday'' True))) < 2"
    by (simp add: cal_eval)
  ultimately show ?thesis
    using weekend_never_project_day [of sample_calendar sample_week] by simp
qed

section \<open>Smart recommendations\<close>

lemma served_two_weeks:
  "was_served_recently p r 2 \<longleftrightarrow>
     title r \<in> meal_recipe ` set (drop (length (last_4_weeks p) - 14) (last_4_weeks p))"
  using slice_from_neg [of 14 "last_4_weeks p"]
  by (simp add: was_served_recently_def)

lemma first_pass_filter: "first_pass p rs acc = acc @ filter (compliant p) rs"
  by (induction rs arbitrary: acc)
    (auto simp: compliant_def served_two_weeks recipe_is_banned_def)

lemma second_pass_subset: "set (second_pass p rs acc) \<subseteq> set acc \<union> set rs"
proof (induction rs arbitrary: acc)
  case Nil
  show ?case by simp
next
  case (Cons r rs)
  from Cons.IH [of "acc @ [r]"] Cons.IH [of acc] show ?case
    by (simp split: if_splits) blast
qed

lemma second_pass_distinct: "distinct acc \<Longrightarrow> distinct (second_pass p rs acc)"
  by (induction rs arbitrary: acc) auto

lemma fill_result_subset: "set (fill_result rs cnt res) \<subseteq> set res \<union> set rs"
proof (induction rs arbitrary: res)
  case Nil
  show ?case by simp
next
  case (Cons r rs)
  from Cons.IH [of "res @ [r]"] Cons.IH [of res] show ?case
    by (simp split: if_splits) blast
qed

lemma slice_to_subset: "set (slice_to i xs) \<subseteq> set xs"
  by (auto simp: slice_to_def dest: in_set_takeD)

lemma slice_to_length: "0 \<le> i \<Longrightarrow> length (slice_to i xs) = min (nat i) (length xs)"
  by (simp add: slice_to_def)

lemma shuffle_set: "is_shuffle sh \<Longrightarrow> set (sh xs) = set xs"
  by (metis is_shuffle_def mset_eq_setD)

lemma shuffle_length: "is_shuffle sh \<Longrightarrow> length (sh xs) = length xs"
  by (metis is_shuffle_def mset_eq_length)

lemma shuffle_distinct: "is_shuffle sh \<Longrightarrow> distinct (sh xs) = distinct xs"
  by (metis is_shuffle_def mset_eq_imp_distinct_iff)

lemma recommendations_subset:
  assumes "is_shuffle sh1" "is_shuffle sh2"
  shows "set (get_smart_recommendations sh1 sh2 self m d cnt)
           \<subseteq> set (filtered_pool self m d cnt)"
proof -
  let ?pool = "filtered_pool self m d cnt"
  let ?favs = "family_favorites (prefs_of (prefs self))"
  let ?F = "sh1 (filter (\<lambda>r. title r \<in> set ?favs) ?pool)"
  let ?N = "sh2 (filter (\<lambda>r. title r \<notin> set ?favs) ?pool)"
  have "set (get_smart_recommendations sh1 sh2 self m d cnt)
          \<subseteq> set (fill_result ?N cnt (slice_to (max 1 (cnt div 3)) ?F))"
    by (simp add: get_smart_recommendations_def Let_def slice_to_subset)
  also have "\<dots> \<subseteq> set (slice_to (max 1 (cnt div 3)) ?F) \<union> set ?N"
    by (rule fill_result_subset)
  also have "\<dots> \<subseteq> set ?F \<union> set ?N"
    using slice_to_subset [of "max 1 (cnt div 3)" ?F] by blast
  also have "\<dots> \<subseteq> set ?pool"
    by (auto simp: shuffle_set [OF assms(1)] shuffle_set [OF assms(2)])
  finally show ?thesis .
qed

text \<open>
  Claim C1. For every meal slot, day type and count of at least 1, whatever the two
  shuffles give, \<^verbatim>\<open>get_smart_recommendations\<close> returns at most count recipes; and when the
  selected group holds at least count recipes that have no disliked ingredient, are not
  banned and are not among the 14 most recent history entries, no returned recipe is banned
  or among those 14 entries.
\<close>

theorem recommendations_bounded_and_compliant:
  assumes "is_shuffle sh1" and "is_shuffle sh2" and "1 \<le> cnt"
  shows "int (length (get_smart_recommendations sh1 sh2 self m d cnt)) \<le> cnt
    \<and> (cnt \<le> int (length (filter (compliant (prefs self)) (recipe_group self m d))) \<longrightarrow>
        (\<forall>r \<in> set (get_smart_recommendations sh1 sh2 self m d cnt).
           title r \<notin> set (never_suggest_again (prefs_of (prefs self)))
           \<and> title r \<notin> meal_recipe ` set (drop (length (last_4_weeks (prefs self)) - 14)
                                                (last_4_weeks (prefs self)))))"
proof (intro conjI impI ballI)
  from assms(3) show "int (length (get_smart_recommendations sh1 sh2 self m d cnt)) \<le> cnt"
    by (simp add: get_smart_recommendations_def Let_def slice_to_length)
next
  fix r
  assume enough: "cnt \<le> int (length (filter (compliant (prefs self)) (recipe_group self m d)))"
    and r: "r \<in> set (get_smart_recommendations sh1 sh2 self m d cnt)"
  from enough have "filtered_pool self m d cnt = filter (compliant (prefs self)) (recipe_group self m d)"
    by (simp add: filtered_pool_def Let_def first_pass_filter)
  with r recommendations_subset [OF assms(1,2), of self m d cnt]
  have "compliant (prefs self) r" by auto
  then show "title r \<notin> set (never_suggest_again (prefs_of (prefs self)))"
    and "title r \<notin> meal_recipe ` set (drop (length (last_4_weeks (prefs self)) - 14)
                                                (last_4_weeks (prefs self)))"
    by (simp_all add: compliant_def)
qed


lemma shuffle_id: "is_shuffle (\<lambda>xs. xs)"
  by (simp add: is_shuffle_def)

lemma shuffle_rev: "is_shuffle rev"
  by (simp add: is_shuffle_def)


lemma fill_result_length:
  assumes "distinct rs" and "set rs \<inter> set res = {}"
  shows "length (fill_result rs cnt res) =
           (if cnt \<le> int (length res) then length res
            else min (nat cnt) (length res + length rs))"
  using assms
proof (induction rs arbitrary: res)
  case Nil
  then show ?case by auto
next
  case (Cons r rs)
  from Cons.prems have a: "distinct rs" and b: "set rs \<inter> set (res @ [r]) = {}"
    and c: "r \<notin> set res"
    by auto
  from Cons.IH [OF a b] c show ?case
    by auto
qed

lemma pool_distinct:
  assumes "distinct (recipe_group self m d)"
  shows "distinct (filtered_pool self m d cnt)"
  using assms by (simp add: filtered_pool_def Let_def first_pass_filter second_pass_distinct)

lemma catalogue_distinct: "distinct (recipe_group (new_rotator p) m d)"
proof -
  have "distinct (map title weekday_breakfast_recipes)"
    by (simp add: weekday_breakfast_recipes_def)
  moreover have "distinct (map title weekday_lunch_recipes)"
    by (simp add: weekday_lunch_recipes_def)
  moreover have "distinct (map title weekday_dinner_recipes)"
    by (simp add: weekday_dinner_recipes_def baked_salmon_def grilled_chicken_def
        turkey_meatballs_def chicken_fajitas_def)
  moreover have "distinct (map title weekend_breakfast_recipes)"
    by (simp add: weekend_breakfast_recipes_def)
  moreover have "distinct (map title weekend_dinner_recipes)"
    by (simp add: weekend_dinner_recipes_def)
  ultimately show ?thesis
    by (auto simp: recipe_group_def new_rotator_def create_recipe_database_def
        distinct_map)
qed

lemma fill_arith:
  fixes a n c f k L :: nat and cnt :: int
  assumes a: "a = min k f" and k: "k \<le> c" and c: "c = nat cnt" and cnt: "1 \<le> cnt"
    and L: "L = (if cnt \<le> int a then a else min c (a + n))"
  shows "min c L = min c (min f k + n)"
proof (cases "cnt \<le> int a")
  case True
  have "a \<le> k" using a by simp
  with True k c have ac: "a = c" by linarith
  with L True have "L = c" by simp
  moreover from a ac have "min f k = c" by (simp add: min.commute)
  ultimately show ?thesis by simp
next
  case False
  with L have "L = min c (a + n)" by simp
  moreover from a have "min f k = a" by (simp add: min.commute)
  ultimately show ?thesis by simp
qed

lemma recommendations_length:
  assumes sh1: "is_shuffle sh1" and sh2: "is_shuffle sh2" and cnt: "1 \<le> cnt"
    and dist: "distinct (recipe_group self m d)"
  shows "length (get_smart_recommendations sh1 sh2 self m d cnt) =
           min (nat cnt)
             (min (length (favorites_of self m d cnt)) (nat (max 1 (cnt div 3)))
              + length (non_favorites_of self m d cnt))"
proof -
  let ?F = "sh1 (favorites_of self m d cnt)"
  let ?N = "sh2 (non_favorites_of self m d cnt)"
  let ?res = "slice_to (max 1 (cnt div 3)) ?F"
  have dp: "distinct (filtered_pool self m d cnt)"
    using dist by (rule pool_distinct)
  have dN: "distinct ?N"
    by (simp add: shuffle_distinct [OF sh2] non_favorites_of_def dp)
  have "set ?F \<inter> set ?N = {}"
    by (auto simp: shuffle_set [OF sh1] shuffle_set [OF sh2] favorites_of_def
        non_favorites_of_def)
  with slice_to_subset [of "max 1 (cnt div 3)" ?F] have disj: "set ?N \<inter> set ?res = {}"
    by blast
  have lres: "length ?res = min (nat (max 1 (cnt div 3))) (length (favorites_of self m d cnt))"
    by (simp add: slice_to_length shuffle_length [OF sh1])
  have small: "nat (max 1 (cnt div 3)) \<le> nat cnt"
    using cnt by auto
  have eq: "get_smart_recommendations sh1 sh2 self m d cnt
              = slice_to cnt (fill_result ?N cnt ?res)"
    by (simp add: get_smart_recommendations_def Let_def favorites_of_def non_favorites_of_def)
  have lfill: "length (fill_result ?N cnt ?res) =
          (if cnt \<le> int (length ?res) then length ?res
           else min (nat cnt) (length ?res + length ?N))"
    using dN disj by (rule fill_result_length)
  have lN: "length ?N = length (non_favorites_of self m d cnt)"
    by (rule shuffle_length [OF sh2])
  have ltake: "length (get_smart_recommendations sh1 sh2 self m d cnt)
                 = min (nat cnt) (length (fill_result ?N cnt ?res))"
    unfolding eq using cnt by (simp add: slice_to_length)
  have main: "min (nat cnt) (length (fill_result ?N cnt ?res)) =
      min (nat cnt) (min (length (favorites_of self m d cnt)) (nat (max 1 (cnt div 3)))
        + length ?N)"
    by (rule fill_arith [OF lres small refl cnt lfill])
  show ?thesis
    by (simp only: ltake main lN)
qed

text \<open>
  Claim C5, as the code has it. With the built-in catalogue, for every meal slot, day type
  and count of at least 1: when the surviving pool holds at least count recipes once its
  favourites are counted only up to \<^verbatim>\<open>max(1, count // 3)\<close>, exactly count recipes are
  returned. (The favourites beyond that cap are never used to fill the result.)
\<close>

theorem recommendations_exactly_count:
  assumes "is_shuffle sh1" and "is_shuffle sh2" and "1 \<le> cnt"
    and "cnt \<le> int (min (length (favorites_of (new_rotator p) m d cnt)) (nat (max 1 (cnt div 3)))
                     + length (non_favorites_of (new_rotator p) m d cnt))"
  shows "int (length (get_smart_recommendations sh1 sh2 (new_rotator p) m d cnt)) = cnt"
proof -
  have "length (get_smart_recommendations sh1 sh2 (new_rotator p) m d cnt) =
          min (nat cnt)
            (min (length (favorites_of (new_rotator p) m d cnt)) (nat (max 1 (cnt div 3)))
             + length (non_favorites_of (new_rotator p) m d cnt))"
    using assms(1-3) catalogue_distinct by (rule recommendations_length)
  also have "\<dots> = nat cnt"
    using assms(4) by linarith
  finally show ?thesis
    using assms(3) by simp
qed

lemma weekend_dinner_group:
  "recipe_group (new_rotator p) ''dinner'' ''weekend'' = weekend_dinner_recipes"
  by (simp add: recipe_group_def new_rotator_def create_recipe_database_def)

lemma prefs_new_rotator: "prefs (new_rotator p) = p"
  by (simp add: new_rotator_def)

lemma picky_state:
  "last_4_weeks picky_prefs =
     [\<lparr>meal_recipe = ''BBQ Ribs with Collard Greens'', meal_date = ''2024-01-01''\<rparr>]"
  "never_suggest_again (prefs_of picky_prefs) = [''Shrimp and Grits'']"
  "disliked_ingredients (prefs_of picky_prefs) = []"
  by (simp_all add: picky_prefs_def ban_recipe_def log_meal_def init_prefs_def Let_def)

lemma fond_state:
  "last_4_weeks fond_prefs = []"
  "never_suggest_again (prefs_of fond_prefs) = []"
  "disliked_ingredients (prefs_of fond_prefs) = []"
  "family_favorites (prefs_of fond_prefs) =
     [''Southern Fried Chicken with Mac and Cheese'', ''BBQ Ribs with Collard Greens'',
      ''Shrimp and Grits'']"
  by (simp_all add: fond_prefs_def add_favorite_def init_prefs_def Let_def)

lemma init_state:
  "last_4_weeks init_prefs = []"
  "never_suggest_again (prefs_of init_prefs) = []"
  "disliked_ingredients (prefs_of init_prefs) = []"
  "family_favorites (prefs_of init_prefs) = []"
  by (simp_all add: init_prefs_def)

lemma no_dislikes:
  "disliked_ingredients (prefs_of p) = [] \<Longrightarrow> \<not> recipe_contains_dislikes p r"
  by (simp add: recipe_contains_dislikes_def)

lemma picky_compliant:
  "filter (compliant picky_prefs) weekend_dinner_recipes = [weekend_dinner_recipes ! 0]"
  by (simp add: compliant_def no_dislikes picky_state weekend_dinner_recipes_def)

lemma fond_compliant: "filter (compliant fond_prefs) weekend_dinner_recipes = weekend_dinner_recipes"
  by (simp add: compliant_def no_dislikes fond_state)

lemma init_compliant: "filter (compliant init_prefs) rs = rs"
  by (simp add: compliant_def no_dislikes init_state)


lemma weekend_dinner_length: "length weekend_dinner_recipes = 3"
  by (simp add: weekend_dinner_recipes_def)

lemma picky_enough:
  "1 \<le> int (length (filter (compliant (prefs (new_rotator picky_prefs)))
           (recipe_group (new_rotator picky_prefs) ''dinner'' ''weekend'')))"
  by (simp add: prefs_new_rotator weekend_dinner_group picky_compliant)

theorem recommendations_bounded_and_compliant_witness:
  "is_shuffle (\<lambda>xs. xs) \<and> is_shuffle rev \<and> (1::int) \<le> 1
   \<and> 1 \<le> int (length (filter (compliant (prefs (new_rotator picky_prefs)))
           (recipe_group (new_rotator picky_prefs) ''dinner'' ''weekend'')))
   \<and> int (length (get_smart_recommendations (\<lambda>xs. xs) rev (new_rotator picky_prefs)
                     ''dinner'' ''weekend'' 1)) \<le> 1
   \<and> list_all
        (\<lambda>r. title r \<notin> set (never_suggest_again (prefs_of (prefs (new_rotator picky_prefs))))
           \<and> title r \<notin> meal_recipe `
                set (drop (length (last_4_weeks (prefs (new_rotator picky_prefs))) - 14)
                       (last_4_weeks (prefs (new_rotator picky_prefs)))))
        (get_smart_recommendations (\<lambda>xs. xs) rev (new_rotator picky_prefs)
           ''dinner'' ''weekend'' 1)"
proof -
  have one: "(1::int) \<le> 1" by simp
  from recommendations_bounded_and_compliant [OF shuffle_id shuffle_rev one,
      of "new_rotator picky_prefs" "''dinner''" "''weekend''"]
    picky_enough shuffle_id shuffle_rev
  show ?thesis unfolding list_all_iff by blast
qed

lemma fond_pool:
  "filtered_pool (new_rotator fond_prefs) ''dinner'' ''weekend'' 3 = weekend_dinner_recipes"
  by (simp add: filtered_pool_def Let_def first_pass_filter prefs_new_rotator
      weekend_dinner_group fond_compliant weekend_dinner_length)

lemma fond_split:
  "favorites_of (new_rotator fond_prefs) ''dinner'' ''weekend'' 3 = weekend_dinner_recipes"
  "non_favorites_of (new_rotator fond_prefs) ''dinner'' ''weekend'' 3 = []"
  by (simp_all add: favorites_of_def non_favorites_of_def fond_pool prefs_new_rotator
      fond_state weekend_dinner_recipes_def)

text \<open>With the three weekend dinners all marked as favourites and count 3, the pool
  holds 3 recipes and one recipe is returned.\<close>

theorem all_favorites_counterexample:
  "is_shuffle (\<lambda>xs. xs)
   \<and> 3 \<le> int (length (filtered_pool (new_rotator fond_prefs) ''dinner'' ''weekend'' 3))
   \<and> length (get_smart_recommendations (\<lambda>xs. xs) (\<lambda>xs. xs) (new_rotator fond_prefs)
               ''dinner'' ''weekend'' 3) = 1"
proof -
  have three: "(1::int) \<le> 3" by simp
  have "length (get_smart_recommendations (\<lambda>xs. xs) (\<lambda>xs. xs) (new_rotator fond_prefs)
               ''dinner'' ''weekend'' 3) =
          min (nat 3)
            (min (length (favorites_of (new_rotator fond_prefs) ''dinner'' ''weekend'' 3))
               (nat (max 1 (3 div 3)))
             + length (non_favorites_of (new_rotator fond_prefs) ''dinner'' ''weekend'' 3))"
    using shuffle_id shuffle_id three catalogue_distinct by (rule recommendations_length)
  also have "\<dots> = 1"
    by (simp add: fond_split weekend_dinner_length)
  finally show ?thesis
    by (simp add: fond_pool weekend_dinner_length shuffle_id)
qed

lemma init_pool:
  "filtered_pool (new_rotator init_prefs) ''dinner'' ''weekend'' 3 = weekend_dinner_recipes"
  by (simp add: filtered_pool_def Let_def first_pass_filter prefs_new_rotator
      weekend_dinner_group init_compliant weekend_dinner_length)

lemma init_split:
  "favorites_of (new_rotator init_prefs) ''dinner'' ''weekend'' 3 = []"
  "non_favorites_of (new_rotator init_prefs) ''dinner'' ''weekend'' 3 = weekend_dinner_recipes"
  by (simp_all add: favorites_of_def non_favorites_of_def init_pool prefs_new_rotator
      init_state)

theorem recommendations_exactly_count_witness:
  "is_shuffle (\<lambda>xs. xs) \<and> is_shuffle rev \<and> (1::int) \<le> 3
   \<and> 3 \<le> int (min (length (favorites_of (new_rotator init_prefs) ''dinner'' ''weekend'' 3))
                   (nat (max 1 (3 div 3)))
                 + length (non_favorites_of (new_rotator init_prefs) ''dinner'' ''weekend'' 3))
   \<and> int (length (get_smart_recommendations (\<lambda>xs. xs) rev (new_rotator init_prefs)
                     ''dinner'' ''weekend'' 3)) = 3"
proof -
  have three: "(1::int) \<le> 3" by simp
  have enough: "3 \<le> int (min (length (favorites_of (new_rotator init_prefs) ''dinner'' ''weekend'' 3))
                   (nat (max 1 (3 div 3)))
                 + length (non_favorites_of (new_rotator init_prefs) ''dinner'' ''weekend'' 3))"
    by (simp add: init_split weekend_dinner_length)
  from recommendations_exactly_count [OF shuffle_id shuffle_rev three enough]
    shuffle_id shuffle_rev three enough
  show ?thesis by blast
qed

section \<open>Sale-based ranking\<close>

lemma add_matches_fst:
  "fst (add_matches pts ty ings ms acc) =
     fst acc + pts * int (length (filter (\<lambda>e. match_in_recipe e ings) ms))"
proof (induction ms arbitrary: acc)
  case Nil
  show ?case by simp
next
  case (Cons e ms)
  obtain s b where acc: "acc = (s, b)" by (cases acc)
  show ?case
    unfolding acc by (simp add: Cons.IH algebra_simps)
qed

lemma add_matches_savings:
  "map benefit_savings (snd (add_matches pts ty ings ms acc)) =
     map benefit_savings (snd acc)
       @ map (\<lambda>e. savings (sale_info e)) (filter (\<lambda>e. match_in_recipe e ings) ms)"
proof (induction ms arbitrary: acc)
  case Nil
  show ?case by simp
next
  case (Cons e ms)
  obtain s b where acc: "acc = (s, b)" by (cases acc)
  show ?case
    unfolding acc by (simp add: Cons.IH)
qed

lemma sale_score_eq:
  "sale_score (score_recipe_sales m r) =
     10 * int (length (matched r (proteins m)))
     + 5 * int (length (matched r (vegetables m)))
     + 3 * int (length (matched r (pantry m)))"
  by (simp add: score_recipe_sales_def Let_def add_matches_fst matched_def matches_recipe_def)

lemma total_savings_eq:
  "total_sale_savings (score_recipe_sales m r) =
     sum_list (map (\<lambda>e. savings (sale_info e)) (matched r (proteins m)))
     + sum_list (map (\<lambda>e. savings (sale_info e)) (matched r (vegetables m)))
     + sum_list (map (\<lambda>e. savings (sale_info e)) (matched r (pantry m)))"
  by (simp add: score_recipe_sales_def Let_def add_matches_savings matched_def
      matches_recipe_def)

lemma key_order: "sort_key_of b \<le> sort_key_of a \<longleftrightarrow> ranks_at_least a b"
  by (auto simp: sort_key_of_def ranks_at_least_def)

lemma sort_reverse_sorted: "sorted_wrt ranks_at_least (sort_reverse sort_key_of xs)"
proof -
  have "sorted (map sort_key_of (sort_key sort_key_of (rev xs)))"
    by (rule sorted_sort_key)
  then have "sorted_wrt (\<lambda>a b. sort_key_of a \<le> sort_key_of b) (sort_key sort_key_of (rev xs))"
    by (simp add: sorted_map)
  then show ?thesis
    by (simp add: sort_reverse_def sorted_wrt_rev key_order)
qed

lemma sort_reverse_mset: "mset (sort_reverse k xs) = mset xs"
  by (simp add: sort_reverse_def)

lemma slice_to_sorted: "sorted_wrt R xs \<Longrightarrow> sorted_wrt R (slice_to i xs)"
  by (simp add: slice_to_def sorted_wrt_take)

lemma sorted_positions:
  assumes "sorted_wrt ranks_at_least res"
    and "i < length res" and "j < length res"
    and "sale_score (res ! j) < sale_score (res ! i)"
  shows "i < j"
proof (rule ccontr)
  assume "\<not> i < j"
  then consider "i = j" | "j < i" by linarith
  then show False
  proof cases
    case 1
    with assms(4) show False by simp
  next
    case 2
    from sorted_wrt_nth_less [OF assms(1) 2 assms(2)] assms(4) show False
      by (simp add: ranks_at_least_def)
  qed
qed

text \<open>
  Claim C3. For every list of sale items and every candidate pool (whatever the selector
  and its shuffles return): each candidate's sale score is 10 for every protein entry that
  matches the recipe, plus 5 for every matching vegetable entry, plus 3 for every matching
  pantry entry; the result is the first count entries of a rearrangement of the scored
  candidates that descends by (sale score, total savings), the total savings being the
  sum of the savings of the matching entries; and in the result a recipe that
  matches a protein entry stands before a recipe that matches one vegetable entry and
  nothing else.
\<close>

theorem sale_ranking:
  "(\<forall>r. sale_score (score_recipe_sales (get_sale_ingredient_matches items) r) =
         10 * int (length (matched r (proteins (get_sale_ingredient_matches items))))
         + 5 * int (length (matched r (vegetables (get_sale_ingredient_matches items))))
         + 3 * int (length (matched r (pantry (get_sale_ingredient_matches items)))))
   \<and> (\<forall>r. total_sale_savings (score_recipe_sales (get_sale_ingredient_matches items) r) =
         sum_list (map (\<lambda>e. savings (sale_info e))
           (matched r (proteins (get_sale_ingredient_matches items))))
         + sum_list (map (\<lambda>e. savings (sale_info e))
             (matched r (vegetables (get_sale_ingredient_matches items))))
         + sum_list (map (\<lambda>e. savings (sale_info e))
             (matched r (pantry (get_sale_ingredient_matches items)))))
   \<and> (\<exists>ranked.
         mset ranked = mset (map (score_recipe_sales (get_sale_ingredient_matches items))
           (get_smart_recommendations sh1 sh2 rot meal day (cnt * 2)))
         \<and> sorted_wrt ranks_at_least ranked
         \<and> get_sale_based_recommendations sh1 sh2 rot items meal day cnt = slice_to cnt ranked)
   \<and> (\<forall>a b i j.
         matched a (proteins (get_sale_ingredient_matches items)) \<noteq> []
         \<and> matched b (proteins (get_sale_ingredient_matches items)) = []
         \<and> length (matched b (vegetables (get_sale_ingredient_matches items))) = 1
         \<and> matched b (pantry (get_sale_ingredient_matches items)) = []
         \<and> i < length (get_sale_based_recommendations sh1 sh2 rot items meal day cnt)
         \<and> j < length (get_sale_based_recommendations sh1 sh2 rot items meal day cnt)
         \<and> get_sale_based_recommendations sh1 sh2 rot items meal day cnt ! i
             = score_recipe_sales (get_sale_ingredient_matches items) a
         \<and> get_sale_based_recommendations sh1 sh2 rot items meal day cnt ! j
             = score_recipe_sales (get_sale_ingredient_matches items) b
         \<longrightarrow> i < j)"
  (is "?scores \<and> ?totals \<and> ?top \<and> ?above")
proof (intro conjI)
  let ?m = "get_sale_ingredient_matches items"
  let ?res = "get_sale_based_recommendations sh1 sh2 rot items meal day cnt"
  let ?ranked = "sort_reverse sort_key_of (map (score_recipe_sales ?m)
           (get_smart_recommendations sh1 sh2 rot meal day (cnt * 2)))"
  show ?scores
    by (simp add: sale_score_eq)
  show ?totals
    by (simp add: total_savings_eq)
  have res: "?res = slice_to cnt ?ranked"
    by (simp add: get_sale_based_recommendations_def Let_def)
  show ?top
    using res sort_reverse_sorted sort_reverse_mset by blast
  have sorted: "sorted_wrt ranks_at_least ?res"
    unfolding res by (rule slice_to_sorted [OF sort_reverse_sorted])
  show ?above
  proof (intro allI impI)
    fix a b i j
    assume h: "matched a (proteins ?m) \<noteq> []
         \<and> matched b (proteins ?m) = []
         \<and> length (matched b (vegetables ?m)) = 1
         \<and> matched b (pantry ?m) = []
         \<and> i < length ?res \<and> j < length ?res
         \<and> ?res ! i = score_recipe_sales ?m a
         \<and> ?res ! j = score_recipe_sales ?m b"
    then have i: "i < length ?res" and j: "j < length ?res"
      and ri: "?res ! i = score_recipe_sales ?m a"
      and rj: "?res ! j = score_recipe_sales ?m b"
      and pa: "matched a (proteins ?m) \<noteq> []"
      and pb: "matched b (proteins ?m) = []"
      and vb: "length (matched b (vegetables ?m)) = 1"
      and tb: "matched b (pantry ?m) = []"
      by blast+
    from pa have "0 < length (matched a (proteins ?m))" by simp
    then have "10 \<le> sale_score (score_recipe_sales ?m a)"
      unfolding sale_score_eq by linarith
    moreover from pb vb tb have "sale_score (score_recipe_sales ?m b) = 5"
      unfolding sale_score_eq by simp
    ultimately have "sale_score (?res ! j) < sale_score (?res ! i)"
      unfolding ri rj by linarith
    with sorted i j show "i < j"
      by (rule sorted_positions)
  qed
qed


lemma deals_matches:
  "get_sale_ingredient_matches deals =
     \<lparr>proteins = [chicken_match], vegetables = [broccoli_match], pantry = []\<rparr>"
  by (simp add: get_sale_ingredient_matches_def deals_def chicken_deal_def broccoli_deal_def
      chicken_match_def broccoli_match_def any_keyword_def protein_keywords_def
      vegetable_keywords_def extract_protein_type_def extract_vegetable_type_def
      veg_map_def str_eval)


lemma second_pass_idle: "set rs \<subseteq> set acc \<Longrightarrow> second_pass p rs acc = acc"
  by (induction rs) auto

lemma fill_result_all:
  assumes "distinct rs" and "set rs \<inter> set res = {}"
    and "int (length res + length rs) \<le> cnt"
  shows "fill_result rs cnt res = res @ rs"
  using assms
proof (induction rs arbitrary: res)
  case Nil
  show ?case by simp
next
  case (Cons r rs)
  from Cons.prems have a: "distinct rs" and b: "set rs \<inter> set (res @ [r]) = {}"
    and c: "int (length (res @ [r]) + length rs) \<le> cnt"
    and d: "r \<notin> set res" and e: "\<not> cnt \<le> int (length res)"
    by auto
  from Cons.IH [OF a b c] d e show ?case
    by simp
qed

lemma weekday_dinner_group:
  "recipe_group (new_rotator p) ''dinner'' ''weekday'' = weekday_dinner_recipes"
  by (simp add: recipe_group_def new_rotator_def create_recipe_database_def)

lemma weekday_dinner_length: "length weekday_dinner_recipes = 4"
  by (simp add: weekday_dinner_recipes_def)

lemma weekday_dinner_distinct: "distinct weekday_dinner_recipes"
  using catalogue_distinct [of init_prefs "''dinner''" "''weekday''"]
  by (simp only: weekday_dinner_group)

lemma plain_pool:
  "filtered_pool (new_rotator init_prefs) ''dinner'' ''weekday'' 6 = weekday_dinner_recipes"
  by (simp add: filtered_pool_def Let_def first_pass_filter prefs_new_rotator
      weekday_dinner_group init_compliant weekday_dinner_length second_pass_idle)

lemma plain_candidates:
  "get_smart_recommendations (\<lambda>xs. xs) (\<lambda>xs. xs) (new_rotator init_prefs)
     ''dinner'' ''weekday'' 6 = weekday_dinner_recipes"
proof -
  have "fill_result weekday_dinner_recipes 6 [] = [] @ weekday_dinner_recipes"
    by (rule fill_result_all) (simp_all add: weekday_dinner_distinct weekday_dinner_length)
  then show ?thesis
    by (simp add: get_smart_recommendations_def Let_def plain_pool prefs_new_rotator
        init_state slice_to_def weekday_dinner_length)
qed

lemma salmon_matched:
  "matched baked_salmon [chicken_match] = []"
  "matched baked_salmon [broccoli_match] = [broccoli_match]"
  by code_simp+

lemma grilled_matched:
  "matched grilled_chicken [chicken_match] = [chicken_match]"
  "matched grilled_chicken [broccoli_match] = []"
  by code_simp+

lemma meatballs_matched:
  "matched turkey_meatballs [chicken_match] = []"
  "matched turkey_meatballs [broccoli_match] = []"
  by code_simp+

lemma fajitas_matched:
  "matched chicken_fajitas [chicken_match] = [chicken_match]"
  "matched chicken_fajitas [broccoli_match] = []"
  by code_simp+

lemma matched_nil: "matched r [] = []"
  by (simp add: matched_def)

lemma deal_savings:
  "savings (sale_info chicken_match) = 5" "savings (sale_info broccoli_match) = 5"
  by (simp_all add: chicken_match_def broccoli_match_def chicken_deal_def broccoli_deal_def)

lemmas deal_eval = sale_score_eq total_savings_eq deals_matches matched_nil deal_savings

lemma dinner_keys:
  "sort_key_of (score_recipe_sales (get_sale_ingredient_matches deals) baked_salmon) = (5, 5)"
  "sort_key_of (score_recipe_sales (get_sale_ingredient_matches deals) grilled_chicken) = (10, 5)"
  "sort_key_of (score_recipe_sales (get_sale_ingredient_matches deals) turkey_meatballs) = (0, 0)"
  "sort_key_of (score_recipe_sales (get_sale_ingredient_matches deals) chicken_fajitas) = (10, 5)"
  by (simp_all add: sort_key_of_def deal_eval salmon_matched grilled_matched
      meatballs_matched fajitas_matched)

lemma dinner_ranking:
  "get_sale_based_recommendations (\<lambda>xs. xs) (\<lambda>xs. xs) (new_rotator init_prefs) deals
     ''dinner'' ''weekday'' 3 =
     [score_recipe_sales (get_sale_ingredient_matches deals) grilled_chicken,
      score_recipe_sales (get_sale_ingredient_matches deals) chicken_fajitas,
      score_recipe_sales (get_sale_ingredient_matches deals) baked_salmon]"
proof -
  have "get_sale_based_recommendations (\<lambda>xs. xs) (\<lambda>xs. xs) (new_rotator init_prefs) deals
     ''dinner'' ''weekday'' 3 =
     slice_to 3 (sort_reverse sort_key_of
       (map (score_recipe_sales (get_sale_ingredient_matches deals)) weekday_dinner_recipes))"
    by (simp add: get_sale_based_recommendations_def Let_def plain_candidates)
  also have "\<dots> =
     [score_recipe_sales (get_sale_ingredient_matches deals) grilled_chicken,
      score_recipe_sales (get_sale_ingredient_matches deals) chicken_fajitas,
      score_recipe_sales (get_sale_ingredient_matches deals) baked_salmon]"
    by (simp add: weekday_dinner_recipes_def sort_reverse_def slice_to_def dinner_keys)
  finally show ?thesis .
qed

text \<open>The weekday dinners with chicken and broccoli on sale, savings 5 each: the grilled
  chicken (score 10) comes first and the salmon with broccoli (score 5) third.\<close>

theorem sale_ranking_witness:
  "matched grilled_chicken (proteins (get_sale_ingredient_matches deals)) \<noteq> []
   \<and> matched baked_salmon (proteins (get_sale_ingredient_matches deals)) = []
   \<and> length (matched baked_salmon (vegetables (get_sale_ingredient_matches deals))) = 1
   \<and> matched baked_salmon (pantry (get_sale_ingredient_matches deals)) = []
   \<and> 0 < length (get_sale_based_recommendations (\<lambda>xs. xs) (\<lambda>xs. xs)
          (new_rotator init_prefs) deals ''dinner'' ''weekday'' 3)
   \<and> 2 < length (get_sale_based_recommendations (\<lambda>xs. xs) (\<lambda>xs. xs)
          (new_rotator init_prefs) deals ''dinner'' ''weekday'' 3)
   \<and> get_sale_based_recommendations (\<lambda>xs. xs) (\<lambda>xs. xs)
          (new_rotator init_prefs) deals ''dinner'' ''weekday'' 3 ! 0
        = score_recipe_sales (get_sale_ingredient_matches deals) grilled_chicken
   \<and> get_sale_based_recommendations (\<lambda>xs. xs) (\<lambda>xs. xs)
          (new_rotator init_prefs) deals ''dinner'' ''weekday'' 3 ! 2
        = score_recipe_sales (get_sale_ingredient_matches deals) baked_salmon
   \<and> sale_score (score_recipe_sales (get_sale_ingredient_matches deals) grilled_chicken) = 10
   \<and> sale_score (score_recipe_sales (get_sale_ingredient_matches deals) baked_salmon) = 5
   \<and> (0::nat) < 2"
proof -
  have hyps:
    "matched grilled_chicken (proteins (get_sale_ingredient_matches deals)) \<noteq> []
     \<and> matched baked_salmon (proteins (get_sale_ingredient_matches deals)) = []
     \<and> length (matched baked_salmon (vegetables (get_sale_ingredient_matches deals))) = 1
     \<and> matched baked_salmon (pantry (get_sale_ingredient_matches deals)) = []"
    by (simp add: deals_matches salmon_matched grilled_matched matched_nil)
  have places:
    "0 < length (get_sale_based_recommendations (\<lambda>xs. xs) (\<lambda>xs. xs)
          (new_rotator init_prefs) deals ''dinner'' ''weekday'' 3)
     \<and> 2 < length (get_sale_based_recommendations (\<lambda>xs. xs) (\<lambda>xs. xs)
          (new_rotator init_prefs) deals ''dinner'' ''weekday'' 3)
     \<and> get_sale_based_recommendations (\<lambda>xs. xs) (\<lambda>xs. xs)
          (new_rotator init_prefs) deals ''dinner'' ''weekday'' 3 ! 0
        = score_recipe_sales (get_sale_ingredient_matches deals) grilled_chicken
     \<and> get_sale_based_recommendations (\<lambda>xs. xs) (\<lambda>xs. xs)
          (new_rotator init_prefs) deals ''dinner'' ''weekday'' 3 ! 2
        = score_recipe_sales (get_sale_ingredient_matches deals) baked_salmon"
    unfolding dinner_ranking by simp
  have scores:
    "sale_score (score_recipe_sales (get_sale_ingredient_matches deals) grilled_chicken) = 10
     \<and> sale_score (score_recipe_sales (get_sale_ingredient_matches deals) baked_salmon) = 5"
    using sale_ranking [of deals "\<lambda>xs. xs" "\<lambda>xs. xs" "new_rotator init_prefs"
        "''dinner''" "''weekday''" 3]
    by (simp add: deals_matches salmon_matched grilled_matched matched_nil)
  have "(0::nat) < 2"
    using sale_ranking [of deals "\<lambda>xs. xs" "\<lambda>xs. xs" "new_rotator init_prefs"
        "''dinner''" "''weekday''" 3] hyps places
    by blast
  with hyps places scores show ?thesis
    by blast
qed

end
